theory Spec2Isabelle
  imports Complex_Main "HOL-Library.AList"
begin

section \<open>Python values, dictionaries and exceptions\<close>

text \<open>
  The two adapters (\<^verbatim>\<open>crossref_client.py\<close>, \<^verbatim>\<open>scopus_client.py\<close>) work on
  decoded JSON documents. A JSON value is one of Python's \<^verbatim>\<open>None\<close>, \<^verbatim>\<open>bool\<close>,
  \<^verbatim>\<open>int\<close>, \<^verbatim>\<open>float\<close>, \<^verbatim>\<open>str\<close>, \<^verbatim>\<open>list\<close> and \<^verbatim>\<open>dict\<close>. A float is
  kept as the rational it denotes (NaN and the infinities are left out), a string as the
  list of its bytes in UTF-8 (its characters, for ASCII text), a dict as an association
  list in insertion order whose lookup is \<^const>\<open>map_of\<close>.

  Every exception the code can raise is a value \<open>Inl e\<close> of the result type.
\<close>

datatype py_error =
    ValueError | KeyError | TypeError | AttributeError | OverflowError
  | OSError | NotModelled

datatype json =
    JNull | JBool bool | JInt int | JFloat rat | JStr string
  | JList "json list" | JDict "(string \<times> json) list"

type_synonym pydict = "(string \<times> json) list"

text \<open>\<^verbatim>\<open>d.get(k, default)\<close> on a dictionary.\<close>

definition dict_get :: "(string \<times> 'v) list \<Rightarrow> string \<Rightarrow> 'v \<Rightarrow> 'v" where
  "dict_get d k dflt = (case map_of d k of Some v \<Rightarrow> v | None \<Rightarrow> dflt)"

text \<open>
  \<^verbatim>\<open>x.get(k, default)\<close> on a JSON value that the code has not checked to be a dict:
  only a dict has the method, every other value raises \<^verbatim>\<open>AttributeError\<close>.
\<close>

fun py_get :: "json \<Rightarrow> string \<Rightarrow> json \<Rightarrow> py_error + json" where
  "py_get (JDict d) k dflt = Inr (dict_get d k dflt)"
| "py_get _ k dflt = Inl AttributeError"

text \<open>Truth value of a JSON value, as \<^verbatim>\<open>if x:\<close> and \<^verbatim>\<open>not x\<close> test it.\<close>

fun truthy :: "json \<Rightarrow> bool" where
  "truthy JNull = False"
| "truthy (JBool b) = b"
| "truthy (JInt i) = (i \<noteq> 0)"
| "truthy (JFloat r) = (r \<noteq> 0)"
| "truthy (JStr s) = (s \<noteq> [])"
| "truthy (JList xs) = (xs \<noteq> [])"
| "truthy (JDict d) = (d \<noteq> [])"

text \<open>
  \<^verbatim>\<open>len(x)\<close>: defined on strings, lists and dicts, a \<^verbatim>\<open>TypeError\<close> otherwise. For a
  string the model counts bytes; the code only compares a length with 0.
\<close>

fun py_len :: "json \<Rightarrow> py_error + nat" where
  "py_len (JStr s) = Inr (length s)"
| "py_len (JList xs) = Inr (length xs)"
| "py_len (JDict d) = Inr (length d)"
| "py_len _ = Inl TypeError"

section \<open>Response parsing\<close>

text \<open>
  \<^verbatim>\<open>CrossrefSearchClient._parse_page_response\<close>. The page is the dict the method
  returns, with its keys in the order of the dict display.
\<close>

definition crossref_parse_page_response :: "pydict \<Rightarrow> int \<Rightarrow> py_error + pydict" where
  "crossref_parse_page_response response_data page =
     (if map_of response_data ''status'' \<noteq> None
         \<and> map_of response_data ''status'' \<noteq> Some (JStr ''ok'')
      then Inr [(''page'', JInt page), (''total_results'', JInt 0), (''results'', JNull),
                (''error'', dict_get response_data ''message-type'' (JStr ''unknown_error''))]
      else case map_of response_data ''message'' of
        None \<Rightarrow>
          Inr [(''page'', JInt page), (''total_results'', JInt 0), (''results'', JNull),
               (''error'', JStr ''no_message'')]
      | Some message \<Rightarrow>
          (case py_get message ''total-results'' (JInt 0) of
             Inl e \<Rightarrow> Inl e
           | Inr total_results \<Rightarrow>
          (case py_get message ''items'' (JList []) of
             Inl e \<Rightarrow> Inl e
           | Inr items \<Rightarrow>
          (case py_get message ''next-cursor'' JNull of
             Inl e \<Rightarrow> Inl e
           | Inr cursor \<Rightarrow>
               Inr [(''page'', JInt page), (''total_results'', total_results),
                    (''results'', items), (''cursor'', cursor)]))))"

text \<open>
  \<^verbatim>\<open>int(x)\<close>. On a string: surrounding whitespace is stripped, one sign is allowed,
  then decimal digits with single underscores between digits; anything else is a
  \<^verbatim>\<open>ValueError\<close>, and so is a literal of more than 4300 digits (the interpreter's
  default \<^verbatim>\<open>int_max_str_digits\<close>). Only ASCII whitespace and digits are modelled.
\<close>

definition is_space :: "char \<Rightarrow> bool" where
  "is_space c = (c \<in> set [CHR 0x09, CHR 0x0A, CHR 0x0B, CHR 0x0C, CHR 0x0D, CHR 0x20])"

definition py_strip :: "string \<Rightarrow> string" where
  "py_strip s = rev (dropWhile is_space (rev (dropWhile is_space s)))"

definition is_digit :: "char \<Rightarrow> bool" where
  "is_digit c = (c \<in> set ''0123456789'')"

definition digit_val :: "char \<Rightarrow> int" where
  "digit_val c = int (of_char c) - 48"

fun digits_ok :: "string \<Rightarrow> bool" where
  "digits_ok [] = False"
| "digits_ok [c] = is_digit c"
| "digits_ok (c # d # cs) =
     (is_digit c \<and> (if d = CHR ''_'' then digits_ok cs else digits_ok (d # cs)))"

definition int_max_str_digits :: nat where
  "int_max_str_digits = 4300"

definition py_int_str :: "string \<Rightarrow> py_error + int" where
  "py_int_str s =
     (let t = py_strip s;
          signed = (t \<noteq> [] \<and> (hd t = CHR ''-'' \<or> hd t = CHR ''+''));
          body = (if signed then tl t else t);
          ds = filter is_digit body;
          magnitude = foldl (\<lambda>a c. 10 * a + digit_val c) 0 ds
      in if digits_ok body \<and> length ds \<le> int_max_str_digits
         then Inr (if signed \<and> hd t = CHR ''-'' then - magnitude else magnitude)
         else Inl ValueError)"

fun py_int :: "json \<Rightarrow> py_error + int" where
  "py_int (JInt i) = Inr i"
| "py_int (JBool b) = Inr (if b then 1 else 0)"
| "py_int (JFloat r) = Inr (if r < 0 then - \<lfloor>- r\<rfloor> else \<lfloor>r\<rfloor>)"
| "py_int (JStr s) = py_int_str s"
| "py_int _ = Inl TypeError"

text \<open>\<^verbatim>\<open>ScopusSearchClient._parse_page_response\<close>.\<close>

definition scopus_parse_page_response :: "pydict \<Rightarrow> int \<Rightarrow> py_error + pydict" where
  "scopus_parse_page_response response_data page =
     (if map_of response_data ''error'' \<noteq> None
      then Inr [(''page'', JInt page), (''total_results'', JInt 0), (''results'', JNull),
                (''error'', dict_get response_data ''error'' JNull)]
      else case map_of response_data ''search-results'' of
        None \<Rightarrow>
          Inr [(''page'', JInt page), (''total_results'', JInt 0), (''results'', JNull),
               (''error'', JStr ''no_search_results'')]
      | Some search_results \<Rightarrow>
          (case py_get search_results ''opensearch:totalResults'' (JInt 0) of
             Inl e \<Rightarrow> Inl e
           | Inr declared \<Rightarrow>
          (case py_int declared of
             Inl e \<Rightarrow> Inl e
           | Inr total_results \<Rightarrow>
          (case py_get search_results ''entry'' (JList []) of
             Inl e \<Rightarrow> Inl e
           | Inr entries \<Rightarrow>
               Inr [(''page'', JInt page), (''total_results'', JInt total_results),
                    (''results'', entries), (''cursor'', JNull)]))))"

section \<open>Strings\<close>

text \<open>
  \<^verbatim>\<open>s.startswith(p)\<close>, \<^verbatim>\<open>sub in s\<close>, \<^verbatim>\<open>s.split(c)\<close>, \<^verbatim>\<open>s.split(c, 1)\<close> and
  \<^verbatim>\<open>sep.join(parts)\<close> for a one-character separator \<open>c\<close>.
\<close>

definition startswith :: "string \<Rightarrow> string \<Rightarrow> bool" where
  "startswith s p = (take (length p) s = p)"

fun py_in :: "string \<Rightarrow> string \<Rightarrow> bool" where
  "py_in sub [] = (sub = [])"
| "py_in sub (c # cs) = (startswith (c # cs) sub \<or> py_in sub cs)"

fun split_on :: "char \<Rightarrow> string \<Rightarrow> string list" where
  "split_on c [] = [[]]"
| "split_on c (x # xs) =
     (if x = c then [] # split_on c xs
      else (case split_on c xs of [] \<Rightarrow> [[x]] | p # ps \<Rightarrow> (x # p) # ps))"

definition split_once :: "char \<Rightarrow> string \<Rightarrow> string list" where
  "split_once c s =
     (if c \<in> set s then [takeWhile (\<lambda>x. x \<noteq> c) s, tl (dropWhile (\<lambda>x. x \<noteq> c) s)]
      else [s])"

fun join :: "string \<Rightarrow> string list \<Rightarrow> string" where
  "join sep [] = []"
| "join sep [p] = p"
| "join sep (p # q # ps) = p @ sep @ join sep (q # ps)"

text \<open>Decimal text of an integer, as \<^verbatim>\<open>str\<close> prints it.\<close>

definition digit_char :: "nat \<Rightarrow> char" where
  "digit_char n = ''0123456789'' ! (n mod 10)"

function show_nat :: "nat \<Rightarrow> string" where
  "show_nat n = (if n < 10 then [digit_char n] else show_nat (n div 10) @ [digit_char (n mod 10)])"
  by pat_completeness auto
termination
  by (relation "measure id") auto

declare show_nat.simps [simp del]

definition show_int :: "int \<Rightarrow> string" where
  "show_int i = (if i < 0 then CHR ''-'' # show_nat (nat (- i)) else show_nat (nat i))"

text \<open>
  \<^verbatim>\<open>str(x)\<close> of a JSON value, as an f-string renders it. The text of a float, a list
  or a dict (the shortest round-trip float, \<^verbatim>\<open>repr\<close> of the elements) is outside this
  model: \<open>None\<close> marks it, and a function that needs it answers \<open>Inl NotModelled\<close>.
\<close>

fun py_str :: "json \<Rightarrow> string option" where
  "py_str (JStr s) = Some s"
| "py_str (JInt i) = Some (show_int i)"
| "py_str (JBool b) = Some (if b then ''True'' else ''False'')"
| "py_str JNull = Some ''None''"
| "py_str _ = None"

section \<open>Next-page resolution\<close>

text \<open>
  \<^verbatim>\<open>CrossrefSearchClient._get_next_page_url\<close>. \<open>items_empty\<close> is the test
  \<^verbatim>\<open>not items or len(items) == 0\<close>; \<open>remove_old_cursor\<close> is the block under
  \<^verbatim>\<open>if 'cursor=' in current_url\<close>, whose two-name unpacking of
  \<^verbatim>\<open>current_url.split('?', 1)\<close> raises \<^verbatim>\<open>ValueError\<close> when the URL has no \<open>?\<close>.
\<close>

definition items_empty :: "json \<Rightarrow> py_error + bool" where
  "items_empty items =
     (if truthy items
      then (case py_len items of Inl e \<Rightarrow> Inl e | Inr n \<Rightarrow> Inr (n = 0))
      else Inr True)"

definition remove_old_cursor :: "string \<Rightarrow> py_error + string" where
  "remove_old_cursor current_url =
     (if py_in ''cursor='' current_url
      then (case split_once CHR ''?'' current_url of
              [base, params] \<Rightarrow>
                Inr (base @ ''?'' @
                     join ''&'' (filter (\<lambda>p. \<not> startswith p ''cursor='')
                                        (split_on CHR ''&'' params)))
            | _ \<Rightarrow> Inl ValueError)
      else Inr current_url)"

definition crossref_get_next_page_url :: "pydict \<Rightarrow> string \<Rightarrow> py_error + string option" where
  "crossref_get_next_page_url response_data current_url =
     (case map_of response_data ''message'' of
        None \<Rightarrow> Inr None
      | Some message \<Rightarrow>
          (case py_get message ''next-cursor'' JNull of
             Inl e \<Rightarrow> Inl e
           | Inr next_cursor \<Rightarrow>
          (case py_get message ''items'' (JList []) of
             Inl e \<Rightarrow> Inl e
           | Inr items \<Rightarrow>
          (case items_empty items of
             Inl e \<Rightarrow> Inl e
           | Inr True \<Rightarrow> Inr None
           | Inr False \<Rightarrow>
               if truthy next_cursor
               then (case remove_old_cursor current_url of
                       Inl e \<Rightarrow> Inl e
                     | Inr url \<Rightarrow>
                         (case py_str next_cursor of
                            None \<Rightarrow> Inl NotModelled
                          | Some token \<Rightarrow> Inr (Some (url @ ''&cursor='' @ token))))
               else Inr None))))"

text \<open>
  \<^verbatim>\<open>ScopusSearchClient._get_next_page_url\<close>. The comprehension walks \<^verbatim>\<open>links\<close> in
  order and calls \<^verbatim>\<open>link.get('@ref')\<close> on each element; \<^verbatim>\<open>next_links[0]['@href']\<close>
  is a subscript and raises \<^verbatim>\<open>KeyError\<close> on a link without that key. The method's
  \<^verbatim>\<open>None\<close> is \<open>JNull\<close>.
\<close>

fun py_iter :: "json \<Rightarrow> py_error + json list" where
  "py_iter (JList xs) = Inr xs"
| "py_iter (JDict d) = Inr (map (\<lambda>kv. JStr (fst kv)) d)"
| "py_iter (JStr s) = Inr (map (\<lambda>c. JStr [c]) s)"
| "py_iter _ = Inl TypeError"

fun py_getitem :: "json \<Rightarrow> string \<Rightarrow> py_error + json" where
  "py_getitem (JDict d) k = (case map_of d k of None \<Rightarrow> Inl KeyError | Some v \<Rightarrow> Inr v)"
| "py_getitem _ k = Inl TypeError"

fun next_links :: "json list \<Rightarrow> py_error + json list" where
  "next_links [] = Inr []"
| "next_links (link # links) =
     (case py_get link ''@ref'' JNull of
        Inl e \<Rightarrow> Inl e
      | Inr r \<Rightarrow>
          (case next_links links of
             Inl e \<Rightarrow> Inl e
           | Inr rest \<Rightarrow> Inr (if r = JStr ''next'' then link # rest else rest)))"

definition scopus_get_next_page_url :: "pydict \<Rightarrow> string \<Rightarrow> py_error + json" where
  "scopus_get_next_page_url response_data current_url =
     (case map_of response_data ''search-results'' of
        None \<Rightarrow> Inr JNull
      | Some search_results \<Rightarrow>
          (case py_get search_results ''link'' (JList []) of
             Inl e \<Rightarrow> Inl e
           | Inr links \<Rightarrow>
          (case py_iter links of
             Inl e \<Rightarrow> Inl e
           | Inr ls \<Rightarrow>
          (case next_links ls of
             Inl e \<Rightarrow> Inl e
           | Inr [] \<Rightarrow> Inr JNull
           | Inr (link # _) \<Rightarrow> py_getitem link ''@href''))))"

section \<open>Request parameters and the search URL\<close>

text \<open>
  A value of a request parameter or of a filter. The code never looks into such a value:
  it asks \<^verbatim>\<open>isinstance(value, bool)\<close> and renders it with \<^verbatim>\<open>str\<close>. \<open>POther s\<close> is a
  value of any other type (a float, a list, ...), kept as the text \<open>s\<close> that \<^verbatim>\<open>str\<close>
  gives for it. Strings are byte strings here: a character outside ASCII is its UTF-8
  bytes, which is what \<^verbatim>\<open>urllib.parse.quote\<close> works on. A \<^verbatim>\<open>bytes\<close> value is not
  modelled.
\<close>

datatype param = PStr string | PInt int | PBool bool | PNone | POther string

fun param_str :: "param \<Rightarrow> string" where
  "param_str (PStr s) = s"
| "param_str (PInt i) = show_int i"
| "param_str (PBool b) = (if b then ''True'' else ''False'')"
| "param_str PNone = ''None''"
| "param_str (POther s) = s"

text \<open>
  \<^verbatim>\<open>urllib.parse.quote_plus\<close> with its default \<^verbatim>\<open>safe=''\<close>: a space becomes \<open>+\<close>,
  the always-safe bytes (letters, digits, \<open>_.-~\<close>) stay, every other byte becomes
  \<open>%XX\<close> in upper-case hexadecimal. \<^verbatim>\<open>urllib.parse.urlencode\<close> of a dict joins
  \<^verbatim>\<open>quote_plus(str(k)) + '=' + quote_plus(str(v))\<close> with \<open>&\<close>.
\<close>

definition always_safe :: "char \<Rightarrow> bool" where
  "always_safe c =
     (c \<in> set ''ABCDEFGHIJKLMNOPQRSTUVWXYZabcdefghijklmnopqrstuvwxyz0123456789_.-~'')"

definition hex_digit :: "nat \<Rightarrow> char" where
  "hex_digit n = ''0123456789ABCDEF'' ! (n mod 16)"

definition quote_char :: "char \<Rightarrow> string" where
  "quote_char c =
     (if c = CHR '' '' then ''+''
      else if always_safe c then [c]
      else [CHR ''%'', hex_digit (of_char c div 16), hex_digit (of_char c mod 16)])"

definition quote_plus :: "string \<Rightarrow> string" where
  "quote_plus s = concat (map quote_char s)"

definition urlencode :: "(string \<times> param) list \<Rightarrow> string" where
  "urlencode query =
     join ''&'' (map (\<lambda>kv. quote_plus (fst kv) @ ''='' @ quote_plus (param_str (snd kv))) query)"

text \<open>
  \<^verbatim>\<open>{**a, **b}\<close>: a new dict that receives the items of \<open>a\<close>, then those of \<open>b\<close>;
  a key met again keeps its place and takes the later value.
\<close>

definition dict_merge :: "(string \<times> 'v) list \<Rightarrow> (string \<times> 'v) list \<Rightarrow> (string \<times> 'v) list" where
  "dict_merge a b = fold (\<lambda>kv d. AList.update (fst kv) (snd kv) d) (a @ b) []"

text \<open>
  \<^verbatim>\<open>CrossrefConfig\<close>, with the fields of the base \<^verbatim>\<open>APIConfig\<close> that the two source
  files read or set (the base class is not among the sources). The types are the
  declared ones; the two floats \<open>10.0\<close> and \<open>1.0\<close> are the rationals \<open>10\<close> and \<open>1\<close>.
\<close>

record crossref_config =
  mailto :: string
  base_url :: string
  requests_per_second :: rat
  burst_size :: int
  max_results_per_query :: int
  max_retries :: int
  rows_per_page :: int
  default_params :: "(string \<times> param) list"

text \<open>\<^verbatim>\<open>CrossrefConfig.__post_init__\<close>, after the base class's own.\<close>

definition post_init :: "crossref_config \<Rightarrow> crossref_config" where
  "post_init config =
     (if default_params config = []
      then config\<lparr>default_params := [(''rows'', PInt (rows_per_page config))]\<rparr>
      else config)"

text \<open>\<^verbatim>\<open>CrossrefSearchClient._build_search_url\<close>; \<open>None\<close> for \<^verbatim>\<open>params\<close> is \<^verbatim>\<open>None\<close>.\<close>

definition crossref_build_search_url ::
    "crossref_config \<Rightarrow> string \<Rightarrow> (string \<times> param) list option \<Rightarrow> string" where
  "crossref_build_search_url config query params =
     (let url_params = dict_merge (default_params config)
                         (case params of None \<Rightarrow> [] | Some ps \<Rightarrow> ps);
          url_params = AList.update ''query'' (PStr query) url_params;
          url_params = (if mailto config \<noteq> [] \<and> map_of url_params ''mailto'' = None
                        then AList.update ''mailto'' (PStr (mailto config)) url_params
                        else url_params);
          url_params = (if map_of url_params ''cursor'' = None
                        then AList.update ''cursor'' (PStr ''*'') url_params
                        else url_params);
          param_str = urlencode url_params
      in base_url config @ ''?'' @ param_str)"

text \<open>
  \<^verbatim>\<open>CrossrefSearchFetcher.search_with_filters\<close>, up to its last line: the result is the
  argument list of the call \<^verbatim>\<open>self.fetch(query, force_refresh=force_refresh, **params)\<close>
  (the inherited \<^verbatim>\<open>fetch\<close> is not among the sources).
\<close>

definition lower_char :: "char \<Rightarrow> char" where
  "lower_char c =
     (case map_of (zip ''ABCDEFGHIJKLMNOPQRSTUVWXYZ'' ''abcdefghijklmnopqrstuvwxyz'') c of
        Some l \<Rightarrow> l
      | None \<Rightarrow> c)"

definition render_filter :: "string \<times> param \<Rightarrow> string" where
  "render_filter kv =
     (let key = fst kv;
          v = (case snd kv of PBool b \<Rightarrow> PStr (map lower_char (param_str (PBool b)))
                            | other \<Rightarrow> other)
      in key @ '':'' @ param_str v)"

definition search_with_filters ::
    "string \<Rightarrow> (string \<times> param) list option \<Rightarrow> bool \<Rightarrow> (string \<times> param) list
       \<Rightarrow> string \<times> bool \<times> (string \<times> param) list" where
  "search_with_filters query filters force_refresh kwargs =
     (let params = kwargs;
          params =
            (case filters of
               None \<Rightarrow> params
             | Some fs \<Rightarrow>
                 if fs = [] then params
                 else (let filter_strs = map render_filter fs
                       in if filter_strs \<noteq> []
                          then AList.update ''filter'' (PStr (join '','' filter_strs)) params
                          else params))
      in (query, force_refresh, params))"

section \<open>Authentication setup and fetcher construction\<close>

text \<open>
  The session's headers are a dict of strings; \<^verbatim>\<open>headers.update\<close> stores its keys in
  order. A call's log output is the list of the levels of the records it emits, in
  order (the text of a record is not modelled).
\<close>

datatype log_level = DEBUG | INFO | WARNING

type_synonym headers = "(string \<times> string) list"

text \<open>\<^verbatim>\<open>CrossrefSearchClient._setup_session\<close>.\<close>

definition crossref_setup_session ::
    "crossref_config \<Rightarrow> headers \<Rightarrow> py_error + headers \<times> log_level list" where
  "crossref_setup_session config session_headers =
     (let user_agent = ''api_clients/1.0'';
          user_agent = (if mailto config \<noteq> []
                        then user_agent @ '' (mailto:'' @ mailto config @ '')''
                        else user_agent);
          session_headers = AList.update ''Accept'' ''application/json''
                              (AList.update ''User-Agent'' user_agent session_headers)
      in Inr (session_headers, if mailto config \<noteq> [] then [INFO] else [WARNING]))"

text \<open>
  \<^verbatim>\<open>ScopusSearchClient._setup_session\<close>, on the configured \<^verbatim>\<open>api_key\<close> (a \<^verbatim>\<open>str\<close>);
  the method's \<^verbatim>\<open>print\<close> of the headers writes to standard output and is left out.
\<close>

definition scopus_setup_session :: "string \<Rightarrow> headers \<Rightarrow> py_error + headers \<times> log_level list" where
  "scopus_setup_session api_key session_headers =
     (if api_key = [] then Inl ValueError
      else Inr (AList.update ''X-ELS-APIKey'' api_key
                  (AList.update ''Accept'' ''application/json'' session_headers), []))"

text \<open>
  \<^verbatim>\<open>CrossrefSearchFetcher._load_email\<close>. What the method finds at one of its two paths:
  no file, a file that \<^verbatim>\<open>open\<close> or \<^verbatim>\<open>yaml.safe_load\<close> fails on (any exception), or
  the loaded document (\<open>JNull\<close> for an empty file). \<open>read_email\<close> is the body of the
  \<^verbatim>\<open>try\<close> after loading: \<open>Inr (Some r)\<close> when it returns \<open>r\<close> (\<open>None\<close> for
  \<^verbatim>\<open>None\<close>), \<open>Inr None\<close> when it falls through to the next path, \<open>Inl e\<close> when it
  raises. \<^verbatim>\<open>except Exception\<close> catches every \<open>e\<close>, and the loop goes on with the
  next path. The records the method logs are left out.
\<close>

datatype config_file = Missing | Unreadable | Loaded json

definition is_str :: "json \<Rightarrow> bool" where
  "is_str v = (case v of JStr s \<Rightarrow> True | _ \<Rightarrow> False)"

definition str_of :: "json \<Rightarrow> string" where
  "str_of v = (case v of JStr s \<Rightarrow> s | _ \<Rightarrow> [])"

definition read_email :: "json \<Rightarrow> py_error + string option option" where
  "read_email key_data =
     (if key_data = JNull then Inr (Some None)
      else case py_get key_data ''mailto'' JNull of
        Inl e \<Rightarrow> Inl e
      | Inr m \<Rightarrow>
          (case (if truthy m then Inr m else py_get key_data ''email'' JNull) of
             Inl e \<Rightarrow> Inl e
           | Inr email \<Rightarrow>
               if truthy email \<and> is_str email \<and> CHR ''@'' \<in> set (str_of email)
               then Inr (Some (Some (str_of email)))
               else if email = JNull \<or> email = JStr []
               then Inr (Some None)
               else Inr None))"

fun load_email :: "config_file list \<Rightarrow> py_error + string option" where
  "load_email [] = Inr None"
| "load_email (Missing # key_paths) = load_email key_paths"
| "load_email (Unreadable # key_paths) = load_email key_paths"
| "load_email (Loaded key_data # key_paths) =
     (case read_email key_data of
        Inl e \<Rightarrow> load_email key_paths
      | Inr (Some r) \<Rightarrow> Inr r
      | Inr None \<Rightarrow> load_email key_paths)"

text \<open>
  \<^verbatim>\<open>CrossrefSearchFetcher.__init__\<close>, up to the configuration it builds. The keyword
  arguments it reads, each absent or given with the type of the field it sets.
\<close>

record init_kwargs =
  kw_requests_per_second :: "rat option"
  kw_max_hits :: "int option"
  kw_max_results_per_query :: "int option"
  kw_max_retries :: "int option"
  kw_rows_per_page :: "int option"

definition or_default :: "'a option \<Rightarrow> 'a \<Rightarrow> 'a" where
  "or_default v dflt = (case v of Some x \<Rightarrow> x | None \<Rightarrow> dflt)"

definition crossref_fetcher_init ::
    "string option \<Rightarrow> config_file list \<Rightarrow> init_kwargs
       \<Rightarrow> py_error + crossref_config \<times> log_level list" where
  "crossref_fetcher_init mailto_arg key_paths kwargs =
     (case (if mailto_arg = None then load_email key_paths else Inr mailto_arg) of
        Inl e \<Rightarrow> Inl e
      | Inr m \<Rightarrow>
          (let polite = (m \<noteq> None \<and> m \<noteq> Some []);
               default_rate = (if polite then 10 else 1);
               config = post_init
                 \<lparr> mailto = (if polite then or_default m [] else []),
                   base_url = ''https://api.crossref.org/works'',
                   requests_per_second = or_default (kw_requests_per_second kwargs) default_rate,
                   burst_size = 20,
                   max_results_per_query =
                     or_default (kw_max_hits kwargs)
                       (or_default (kw_max_results_per_query kwargs) 10000),
                   max_retries = or_default (kw_max_retries kwargs) 3,
                   rows_per_page = or_default (kw_rows_per_page kwargs) 100,
                   default_params = [] \<rparr>
           in Inr (config, if polite then [] else [WARNING])))"

section \<open>Rate-limit headers\<close>

text \<open>
  The attributes of the limiter that \<^verbatim>\<open>update_from_headers\<close> writes. The base class
  \<^verbatim>\<open>RateLimiter\<close> is not among the sources: each attribute is taken to hold \<^verbatim>\<open>None\<close>
  or an integer (the reset time as its epoch seconds).
\<close>

record rate_limiter =
  api_rate_limit :: "int option"
  api_remaining :: "int option"
  api_reset_time :: "int option"

definition rstrip :: "char \<Rightarrow> string \<Rightarrow> string" where
  "rstrip c s = rev (dropWhile (\<lambda>x. x = c) (rev s))"

text \<open>
  \<^verbatim>\<open>a / b\<close> on two integers is the correctly rounded double and raises
  \<^verbatim>\<open>OverflowError\<close> when that would be \<open>2 ^ 1024\<close> or more, that is from the midpoint
  \<open>2 ^ 1024 - 2 ^ 970\<close> on.
\<close>

definition true_div_overflows :: "int \<Rightarrow> int \<Rightarrow> bool" where
  "true_div_overflows a b = ((2 ^ 1024 - 2 ^ 970) * \<bar>b\<bar> \<le> \<bar>a\<bar>)"

text \<open>
  \<^verbatim>\<open>datetime.datetime.fromtimestamp\<close> on an integer, for a 64-bit \<^verbatim>\<open>time_t\<close> and local
  time UTC: \<^verbatim>\<open>OverflowError\<close> when the value does not fit \<^verbatim>\<open>time_t\<close>, \<^verbatim>\<open>OSError\<close>
  when the C library's \<^verbatim>\<open>localtime\<close> fails (the year does not fit its \<^verbatim>\<open>int\<close>),
  \<^verbatim>\<open>ValueError\<close> when the date is outside the years 1..9999 that \<^verbatim>\<open>datetime\<close>
  supports (the bounds are those of CPython 3.11 on Linux).
\<close>

definition fromtimestamp :: "int \<Rightarrow> py_error + int" where
  "fromtimestamp t =
     (if t < - (2 ^ 63) \<or> 2 ^ 63 \<le> t then Inl OverflowError
      else if t < - 67768040609740800 \<or> 67768036191676799 < t then Inl OSError
      else if t < - 62135510400 \<or> 253402300799 < t then Inl ValueError
      else Inr t)"

text \<open>
  \<^verbatim>\<open>CrossrefRateLimiter.update_from_headers\<close>. \<open>crossref_try\<close> is the body of the
  \<^verbatim>\<open>try\<close>: the limiter as the body leaves it, the records logged, and the exception
  that ends it, if any. The method catches \<^verbatim>\<open>ValueError\<close> and \<^verbatim>\<open>KeyError\<close> and logs
  a warning; its third component is the exception that leaves the method.
\<close>

definition set_rate_limit :: "rate_limiter \<Rightarrow> headers \<Rightarrow> string \<Rightarrow> py_error + rate_limiter" where
  "set_rate_limit self hs name =
     (case map_of hs name of
        None \<Rightarrow> Inr self
      | Some v \<Rightarrow>
          (case py_int_str v of
             Inl e \<Rightarrow> Inl e
           | Inr n \<Rightarrow> Inr (self\<lparr>api_rate_limit := Some n\<rparr>)))"

definition crossref_try ::
    "rate_limiter \<Rightarrow> headers \<Rightarrow> rate_limiter \<times> log_level list \<times> py_error option" where
  "crossref_try self hs =
     (case set_rate_limit self hs ''X-Rate-Limit-Limit'' of
        Inl e \<Rightarrow> (self, [], Some e)
      | Inr self \<Rightarrow>
          (case map_of hs ''X-Rate-Limit-Interval'' of
             None \<Rightarrow> (self, [], None)
           | Some v \<Rightarrow>
               (case py_int_str (rstrip CHR ''s'' v) of
                  Inl e \<Rightarrow> (self, [], Some e)
                | Inr interval_seconds \<Rightarrow>
                    if interval_seconds > 0
                    then (case api_rate_limit self of
                            None \<Rightarrow> (self, [], Some TypeError)
                          | Some limit \<Rightarrow>
                              if true_div_overflows limit interval_seconds
                              then (self, [], Some OverflowError)
                              else (self, [DEBUG], None))
                    else (self, [], None))))"

definition except_value_key ::
    "rate_limiter \<times> log_level list \<times> py_error option
       \<Rightarrow> rate_limiter \<times> log_level list \<times> py_error option" where
  "except_value_key r =
     (case r of
        (self, logged, None) \<Rightarrow> (self, logged, None)
      | (self, logged, Some e) \<Rightarrow>
          if e = ValueError \<or> e = KeyError then (self, logged @ [WARNING], None)
          else (self, logged, Some e))"

definition crossref_update_from_headers ::
    "rate_limiter \<Rightarrow> headers \<Rightarrow> rate_limiter \<times> log_level list \<times> py_error option" where
  "crossref_update_from_headers self hs = except_value_key (crossref_try self hs)"

text \<open>\<^verbatim>\<open>ScopusRateLimiter.update_from_headers\<close>, in the same shape.\<close>

definition scopus_try ::
    "rate_limiter \<Rightarrow> headers \<Rightarrow> rate_limiter \<times> log_level list \<times> py_error option" where
  "scopus_try self hs =
     (case set_rate_limit self hs ''X-RateLimit-Limit'' of
        Inl e \<Rightarrow> (self, [], Some e)
      | Inr self \<Rightarrow>
          (case (case map_of hs ''X-RateLimit-Remaining'' of
                   None \<Rightarrow> Inr (self, [])
                 | Some v \<Rightarrow>
                     (case py_int_str v of
                        Inl e \<Rightarrow> Inl e
                      | Inr n \<Rightarrow>
                          Inr (self\<lparr>api_remaining := Some n\<rparr>,
                               if n mod 100 = 0 then [INFO] else []))) of
             Inl e \<Rightarrow> (self, [], Some e)
           | Inr (self, logged) \<Rightarrow>
               (case map_of hs ''X-RateLimit-Reset'' of
                  None \<Rightarrow> (self, logged, None)
                | Some v \<Rightarrow>
                    (case py_int_str v of
                       Inl e \<Rightarrow> (self, logged, Some e)
                     | Inr t \<Rightarrow>
                         (case fromtimestamp t of
                            Inl e \<Rightarrow> (self, logged, Some e)
                          | Inr reset \<Rightarrow>
                              (self\<lparr>api_reset_time := Some reset\<rparr>, logged, None))))))"

definition scopus_update_from_headers ::
    "rate_limiter \<Rightarrow> headers \<Rightarrow> rate_limiter \<times> log_level list \<times> py_error option" where
  "scopus_update_from_headers self hs = except_value_key (scopus_try self hs)"

section \<open>Cache maintenance\<close>

text \<open>
  The two columns of a cached row that \<^verbatim>\<open>clean_max_hits\<close> reads: \<^verbatim>\<open>num_hits\<close> and
  \<^verbatim>\<open>data\<close>, whose missing value (\<^verbatim>\<open>None\<close>) is \<open>JNull\<close>.
\<close>

record cached_row =
  num_hits :: int
  data :: json

definition isna :: "json \<Rightarrow> bool" where
  "isna v = (v = JNull)"

text \<open>
  Modelled from the spec: the cache (\<^verbatim>\<open>LocalCache\<close>, which is not among the sources).
  The spec's \<open>CacheStore\<close> maps a query key to its rows, lists its keys, deletes by key,
  and its \<open>get\<close> treats an entry that is too old or cannot be read as absent:
  \<open>readable\<close> says whether \<open>get\<close> returns the entry.
\<close>

record cache_entry =
  rows :: "cached_row list"
  readable :: bool

type_synonym cache = "(string \<times> cache_entry) list"

definition cache_list_queries :: "cache \<Rightarrow> string list" where
  "cache_list_queries c = map fst c"

definition cache_get :: "cache \<Rightarrow> string \<Rightarrow> cached_row list option" where
  "cache_get c q =
     (case map_of c q of
        None \<Rightarrow> None
      | Some e \<Rightarrow> if readable e then Some (rows e) else None)"

definition cache_delete :: "cache \<Rightarrow> string \<Rightarrow> cache" where
  "cache_delete c q = AList.delete q c"

text \<open>
  \<^verbatim>\<open>ScopusSearchFetcher.clean_max_hits\<close>: the loop over the keys listed at its start,
  with the cache and the counter \<^verbatim>\<open>removed\<close> passed along; the result is the cache
  afterwards, the counter, and the log.
\<close>

definition problematic :: "int \<Rightarrow> cached_row list \<Rightarrow> cached_row list" where
  "problematic max_hits frame = filter (\<lambda>r. isna (data r) \<and> num_hits r > max_hits) frame"

fun clean_loop :: "int \<Rightarrow> string list \<Rightarrow> cache \<Rightarrow> nat \<Rightarrow> cache \<times> nat" where
  "clean_loop max_hits [] c removed = (c, removed)"
| "clean_loop max_hits (query # queries) c removed =
     (case cache_get c query of
        None \<Rightarrow> clean_loop max_hits queries c removed
      | Some frame \<Rightarrow>
          if length (problematic max_hits frame) > 0
          then clean_loop max_hits queries (cache_delete c query) (removed + 1)
          else clean_loop max_hits queries c removed)"

definition clean_max_hits :: "int \<Rightarrow> cache \<Rightarrow> cache \<times> nat \<times> log_level list" where
  "clean_max_hits max_hits c =
     (case clean_loop max_hits (cache_list_queries c) c 0 of
        (c', removed) \<Rightarrow> (c', removed, if removed > 0 then [INFO] else []))"

section \<open>Reading a URL\<close>

text \<open>
  How the receiver of a URL reads it, for stating what a URL carries: the query string
  is what follows the first \<open>?\<close>, its parameters are the pieces between \<open>&\<close>, and a
  \<^verbatim>\<open>cursor\<close> parameter is a piece that starts with \<^verbatim>\<open>cursor=\<close>; the rest of the piece
  is its raw value. The value the receiver sees is the raw value decoded as
  \<^verbatim>\<open>urllib.parse.unquote_plus\<close> does: \<open>+\<close> is a space and \<open>%XX\<close> is the byte
  \<open>XX\<close>. Fragments (\<open>#\<close>) are not considered.
\<close>

definition query_string :: "string \<Rightarrow> string" where
  "query_string url = (case split_once CHR ''?'' url of [b, q] \<Rightarrow> q | _ \<Rightarrow> [])"

definition cursor_params :: "string \<Rightarrow> string list" where
  "cursor_params url =
     map (drop 7) (filter (\<lambda>p. startswith p ''cursor='') (split_on CHR ''&'' (query_string url)))"

definition is_hex :: "char \<Rightarrow> bool" where
  "is_hex c = (c \<in> set ''0123456789ABCDEFabcdef'')"

definition hex_val :: "char \<Rightarrow> nat" where
  "hex_val c =
     (if c \<in> set ''0123456789'' then of_char c - 48
      else if c \<in> set ''ABCDEF'' then of_char c - 55
      else of_char c - 87)"

fun unquote_plus :: "string \<Rightarrow> string" where
  "unquote_plus [] = []"
| "unquote_plus (c # h # l # rest) =
     (if c = CHR ''%'' \<and> is_hex h \<and> is_hex l
      then char_of (16 * hex_val h + hex_val l) # unquote_plus rest
      else (if c = CHR ''+'' then CHR '' '' else c) # unquote_plus (h # l # rest))"
| "unquote_plus (c # cs) = (if c = CHR ''+'' then CHR '' '' else c) # unquote_plus cs"

definition cursor_values :: "string \<Rightarrow> string list" where
  "cursor_values url = map unquote_plus (cursor_params url)"

section \<open>Capped cache entries\<close>

text \<open>
  For stating what \<^verbatim>\<open>clean_max_hits\<close> deletes: an entry that the cache returns and that
  has at least one row whose \<^verbatim>\<open>data\<close> is null and whose \<^verbatim>\<open>num_hits\<close> is above the cap.
\<close>

abbreviation capped :: "int \<Rightarrow> cache_entry \<Rightarrow> bool" where
  "capped max_hits e \<equiv>
     readable e \<and> (\<exists>r \<in> set (rows e). data r = JNull \<and> max_hits < num_hits r)"

section \<open>Properties of response parsing and next-page resolution\<close>

subsection \<open>Helper lemmas\<close>

lemma next_links_dicts:
  "\<forall>l \<in> set ls. \<exists>d. l = JDict d \<Longrightarrow>
   next_links ls = Inr (filter (\<lambda>l. py_get l ''@ref'' JNull = Inr (JStr ''next'')) ls)"
  by (induction ls) auto

lemma next_links_no_next:
  "\<forall>l \<in> set ls. \<exists>d. l = JDict d \<Longrightarrow>
   find (\<lambda>l. py_get l ''@ref'' JNull = Inr (JStr ''next'')) ls = None \<Longrightarrow> next_links ls = Inr []"
  by (simp add: next_links_dicts find_None_iff filter_empty_conv)

lemma next_links_first:
  "\<forall>l \<in> set ls. \<exists>d. l = JDict d \<Longrightarrow>
   find (\<lambda>l. py_get l ''@ref'' JNull = Inr (JStr ''next'')) ls = Some link \<Longrightarrow>
   \<exists>rest. next_links ls = Inr (link # rest)"
proof (induction ls)
  case Nil
  then show ?case by simp
next
  case (Cons l ls)
  show ?case
  proof (cases "py_get l ''@ref'' JNull = Inr (JStr ''next'')")
    case True
    with Cons.prems show ?thesis by (auto simp: next_links_dicts)
  next
    case False
    with Cons.prems have "find (\<lambda>l. py_get l ''@ref'' JNull = Inr (JStr ''next'')) ls = Some link"
      by simp
    with Cons.IH Cons.prems obtain rest where "next_links ls = Inr (link # rest)" by auto
    with False Cons.prems show ?thesis by auto
  qed
qed

lemma crossref_empty_items_none:
  assumes "crossref_parse_page_response response_data page = Inr parsed"
    and "map_of parsed ''results'' = Some (JList [])"
  shows "crossref_get_next_page_url response_data current_url = Inr None"
proof (cases "map_of response_data ''message''")
  case None
  then show ?thesis by (simp add: crossref_get_next_page_url_def)
next
  case (Some message)
  show ?thesis
  proof (cases message)
    case (JDict d)
    with Some assms have "dict_get d ''items'' (JList []) = JList []"
      by (auto simp: crossref_parse_page_response_def split: if_splits)
    with Some JDict show ?thesis
      by (simp add: crossref_get_next_page_url_def items_empty_def)
  qed (use Some assms in \<open>auto simp: crossref_parse_page_response_def split: if_splits\<close>)
qed

subsection \<open>Error envelopes\<close>

text \<open>
  Claim C3, as the code has it. A Crossref body whose \<^verbatim>\<open>status\<close> is present and not
  \<^verbatim>\<open>'ok'\<close>, and a Scopus body with an \<^verbatim>\<open>error\<close> key, parse to a page with the given
  page index, declared total 0 and a null record list. The error tag is the body's
  \<^verbatim>\<open>message-type\<close> value (\<^verbatim>\<open>'unknown_error'\<close> when the key is absent) for Crossref
  and the body's \<^verbatim>\<open>error\<close> value for Scopus: it is null exactly when the body gives
  that key the value null.
\<close>

theorem parse_page_response_error_envelope:
  "(map_of response_data ''status'' = Some status \<and> status \<noteq> JStr ''ok'' \<longrightarrow>
      crossref_parse_page_response response_data page =
        Inr [(''page'', JInt page), (''total_results'', JInt 0), (''results'', JNull),
             (''error'', dict_get response_data ''message-type'' (JStr ''unknown_error''))]
      \<and> (dict_get response_data ''message-type'' (JStr ''unknown_error'') = JNull
           \<longleftrightarrow> map_of response_data ''message-type'' = Some JNull))
   \<and> (map_of response_data ''error'' = Some tag \<longrightarrow>
      scopus_parse_page_response response_data page =
        Inr [(''page'', JInt page), (''total_results'', JInt 0), (''results'', JNull),
             (''error'', tag)])"
  by (auto simp: crossref_parse_page_response_def scopus_parse_page_response_def dict_get_def
           split: option.splits)

theorem parse_page_response_error_envelope_witness:
  "crossref_parse_page_response
     [(''status'', JStr ''failed''), (''message-type'', JStr ''validation-failure'')] 2 =
     Inr [(''page'', JInt 2), (''total_results'', JInt 0), (''results'', JNull),
          (''error'', JStr ''validation-failure'')]
   \<and> scopus_parse_page_response [(''error'', JStr ''quota'')] 2 =
     Inr [(''page'', JInt 2), (''total_results'', JInt 0), (''results'', JNull),
          (''error'', JStr ''quota'')]"
  using parse_page_response_error_envelope
          [of "[(''status'', JStr ''failed''), (''message-type'', JStr ''validation-failure'')]"
              "JStr ''failed''" 2 "JStr ''x''"]
        parse_page_response_error_envelope
          [of "[(''error'', JStr ''quota'')]" "JNull" 2 "JStr ''quota''"]
  by (simp add: dict_get_def)

text \<open>
  Claim C3 as stated (the error tag is non-null for every error envelope) fails on the
  Scopus body \<^verbatim>\<open>{"error": null}\<close> and on the Crossref body
  \<^verbatim>\<open>{"status": "failed", "message-type": null}\<close>: both parse to a page whose error tag
  is null.
\<close>

theorem parse_page_response_null_error_tag:
  "scopus_parse_page_response [(''error'', JNull)] 0 =
     Inr [(''page'', JInt 0), (''total_results'', JInt 0), (''results'', JNull),
          (''error'', JNull)]
   \<and> crossref_parse_page_response [(''status'', JStr ''failed''), (''message-type'', JNull)] 0 =
     Inr [(''page'', JInt 0), (''total_results'', JInt 0), (''results'', JNull),
          (''error'', JNull)]"
  by (simp add: scopus_parse_page_response_def crossref_parse_page_response_def dict_get_def)

subsection \<open>The Scopus next-page link\<close>

text \<open>
  Claim C8. \<^verbatim>\<open>ScopusSearchClient._get_next_page_url\<close> returns none when the body has no
  \<^verbatim>\<open>search-results\<close> key, and, for a body whose \<^verbatim>\<open>search-results\<close> is a dict with a
  list of link dicts, none when no link has \<^verbatim>\<open>@ref\<close> equal to \<^verbatim>\<open>'next'\<close>, and otherwise
  the \<^verbatim>\<open>@href\<close> value of the first such link, unchanged. The record list plays no part.
\<close>

theorem scopus_next_page_is_first_next_link:
  "(map_of response_data ''search-results'' = None \<longrightarrow>
      scopus_get_next_page_url response_data current_url = Inr JNull)
   \<and> (map_of response_data ''search-results'' = Some (JDict search_results)
        \<and> dict_get search_results ''link'' (JList []) = JList links
        \<and> (\<forall>l \<in> set links. \<exists>d. l = JDict d) \<longrightarrow>
      (find (\<lambda>l. py_get l ''@ref'' JNull = Inr (JStr ''next'')) links = None \<longrightarrow>
         scopus_get_next_page_url response_data current_url = Inr JNull)
      \<and> (find (\<lambda>l. py_get l ''@ref'' JNull = Inr (JStr ''next'')) links = Some link
           \<and> py_getitem link ''@href'' = Inr href \<longrightarrow>
         scopus_get_next_page_url response_data current_url = Inr href))"
proof (intro conjI impI)
  assume "map_of response_data ''search-results'' = None"
  then show "scopus_get_next_page_url response_data current_url = Inr JNull"
    by (simp add: scopus_get_next_page_url_def)
next
  assume a: "map_of response_data ''search-results'' = Some (JDict search_results)
        \<and> dict_get search_results ''link'' (JList []) = JList links
        \<and> (\<forall>l \<in> set links. \<exists>d. l = JDict d)"
    and n: "find (\<lambda>l. py_get l ''@ref'' JNull = Inr (JStr ''next'')) links = None"
  from a n have "next_links links = Inr []" by (simp add: next_links_no_next)
  with a show "scopus_get_next_page_url response_data current_url = Inr JNull"
    by (simp add: scopus_get_next_page_url_def)
next
  assume a: "map_of response_data ''search-results'' = Some (JDict search_results)
        \<and> dict_get search_results ''link'' (JList []) = JList links
        \<and> (\<forall>l \<in> set links. \<exists>d. l = JDict d)"
    and n: "find (\<lambda>l. py_get l ''@ref'' JNull = Inr (JStr ''next'')) links = Some link
           \<and> py_getitem link ''@href'' = Inr href"
  from a n obtain rest where "next_links links = Inr (link # rest)"
    using next_links_first by blast
  with a n show "scopus_get_next_page_url response_data current_url = Inr href"
    by (simp add: scopus_get_next_page_url_def)
qed

theorem scopus_next_page_is_first_next_link_witness:
  "scopus_get_next_page_url [(''other'', JNull)] ''u0'' = Inr JNull
   \<and> scopus_get_next_page_url
       [(''search-results'', JDict [(''entry'', JList [JInt 1]),
          (''link'', JList [JDict [(''@ref'', JStr ''self''), (''@href'', JStr ''u0'')]])])] ''u0''
     = Inr JNull
   \<and> scopus_get_next_page_url
       [(''search-results'', JDict [(''entry'', JList [JInt 1]),
          (''link'', JList [JDict [(''@ref'', JStr ''self''), (''@href'', JStr ''u0'')],
                            JDict [(''@ref'', JStr ''next''), (''@href'', JStr ''u1'')]])])] ''u0''
     = Inr (JStr ''u1'')"
  using scopus_next_page_is_first_next_link
          [where response_data = "[(''other'', JNull)]" and current_url = "''u0''"]
        scopus_next_page_is_first_next_link
          [where response_data = "[(''search-results'', JDict [(''entry'', JList [JInt 1]),
                 (''link'', JList [JDict [(''@ref'', JStr ''self''), (''@href'', JStr ''u0'')]])])]"
             and search_results = "[(''entry'', JList [JInt 1]),
                 (''link'', JList [JDict [(''@ref'', JStr ''self''), (''@href'', JStr ''u0'')]])]"
             and links = "[JDict [(''@ref'', JStr ''self''), (''@href'', JStr ''u0'')]]"
             and current_url = "''u0''"]
        scopus_next_page_is_first_next_link
          [where response_data = "[(''search-results'', JDict [(''entry'', JList [JInt 1]),
                 (''link'', JList [JDict [(''@ref'', JStr ''self''), (''@href'', JStr ''u0'')],
                            JDict [(''@ref'', JStr ''next''), (''@href'', JStr ''u1'')]])])]"
             and search_results = "[(''entry'', JList [JInt 1]),
                 (''link'', JList [JDict [(''@ref'', JStr ''self''), (''@href'', JStr ''u0'')],
                            JDict [(''@ref'', JStr ''next''), (''@href'', JStr ''u1'')]])]"
             and links = "[JDict [(''@ref'', JStr ''self''), (''@href'', JStr ''u0'')],
                            JDict [(''@ref'', JStr ''next''), (''@href'', JStr ''u1'')]]"
             and current_url = "''u0''"
             and link = "JDict [(''@ref'', JStr ''next''), (''@href'', JStr ''u1'')]"
             and href = "JStr ''u1''"]
  by (simp add: dict_get_def)

subsection \<open>Next-page resolution on an empty page\<close>

text \<open>
  Claim C2, as the code has it. When the parsed page has an empty record list, the
  Crossref adapter's \<^verbatim>\<open>_get_next_page_url\<close> returns none whatever continuation token the
  body carries. The Scopus adapter does not look at the record list: on such a page it
  returns none when the body has no link with \<^verbatim>\<open>@ref\<close> \<^verbatim>\<open>'next'\<close>, and the first such
  link's \<^verbatim>\<open>@href\<close> when there is one.
\<close>

theorem next_page_on_empty_page:
  "(crossref_parse_page_response response_data page = Inr parsed
      \<and> map_of parsed ''results'' = Some (JList []) \<longrightarrow>
        crossref_get_next_page_url response_data current_url = Inr None)
   \<and> (scopus_parse_page_response response_data page = Inr parsed
      \<and> map_of parsed ''results'' = Some (JList [])
      \<and> map_of response_data ''search-results'' = Some (JDict search_results)
      \<and> dict_get search_results ''link'' (JList []) = JList links
      \<and> (\<forall>l \<in> set links. \<exists>d. l = JDict d) \<longrightarrow>
        (find (\<lambda>l. py_get l ''@ref'' JNull = Inr (JStr ''next'')) links = None \<longrightarrow>
           scopus_get_next_page_url response_data current_url = Inr JNull)
        \<and> (find (\<lambda>l. py_get l ''@ref'' JNull = Inr (JStr ''next'')) links = Some link
             \<and> py_getitem link ''@href'' = Inr href \<longrightarrow>
           scopus_get_next_page_url response_data current_url = Inr href))"
proof (intro conjI impI)
  assume "crossref_parse_page_response response_data page = Inr parsed
      \<and> map_of parsed ''results'' = Some (JList [])"
  then show "crossref_get_next_page_url response_data current_url = Inr None"
    using crossref_empty_items_none by blast
next
  assume a: "scopus_parse_page_response response_data page = Inr parsed
      \<and> map_of parsed ''results'' = Some (JList [])
      \<and> map_of response_data ''search-results'' = Some (JDict search_results)
      \<and> dict_get search_results ''link'' (JList []) = JList links
      \<and> (\<forall>l \<in> set links. \<exists>d. l = JDict d)"
    and n: "find (\<lambda>l. py_get l ''@ref'' JNull = Inr (JStr ''next'')) links = None"
  from a n have "next_links links = Inr []" by (simp add: next_links_no_next)
  with a show "scopus_get_next_page_url response_data current_url = Inr JNull"
    by (simp add: scopus_get_next_page_url_def)
next
  assume a: "scopus_parse_page_response response_data page = Inr parsed
      \<and> map_of parsed ''results'' = Some (JList [])
      \<and> map_of response_data ''search-results'' = Some (JDict search_results)
      \<and> dict_get search_results ''link'' (JList []) = JList links
      \<and> (\<forall>l \<in> set links. \<exists>d. l = JDict d)"
    and n: "find (\<lambda>l. py_get l ''@ref'' JNull = Inr (JStr ''next'')) links = Some link
             \<and> py_getitem link ''@href'' = Inr href"
  from a n obtain rest where "next_links links = Inr (link # rest)"
    using next_links_first by blast
  with a n show "scopus_get_next_page_url response_data current_url = Inr href"
    by (simp add: scopus_get_next_page_url_def)
qed

theorem next_page_on_empty_page_witness:
  "crossref_get_next_page_url
     [(''status'', JStr ''ok''),
      (''message'', JDict [(''total-results'', JInt 150), (''items'', JList []),
                           (''next-cursor'', JStr ''AoJ2'')])]
     ''https://api.crossref.org/works?query=q&cursor=AoJ1'' = Inr None
   \<and> scopus_get_next_page_url
       [(''search-results'', JDict [(''opensearch:totalResults'', JStr ''0''),
          (''entry'', JList []),
          (''link'', JList [JDict [(''@ref'', JStr ''self''), (''@href'', JStr ''u0'')]])])]
       ''u0'' = Inr JNull
   \<and> scopus_get_next_page_url
       [(''search-results'', JDict [(''opensearch:totalResults'', JStr ''0''),
          (''entry'', JList []),
          (''link'', JList [JDict [(''@ref'', JStr ''next''), (''@href'', JStr ''u1'')]])])]
       ''u0'' = Inr (JStr ''u1'')"
  using next_page_on_empty_page
          [where response_data = "[(''status'', JStr ''ok''),
              (''message'', JDict [(''total-results'', JInt 150), (''items'', JList []),
                                   (''next-cursor'', JStr ''AoJ2'')])]"
             and page = 1
             and parsed = "[(''page'', JInt 1), (''total_results'', JInt 150),
                            (''results'', JList []), (''cursor'', JStr ''AoJ2'')]"
             and current_url = "''https://api.crossref.org/works?query=q&cursor=AoJ1''"]
        next_page_on_empty_page
          [where response_data = "[(''search-results'', JDict [(''opensearch:totalResults'', JStr ''0''),
                (''entry'', JList []),
                (''link'', JList [JDict [(''@ref'', JStr ''self''), (''@href'', JStr ''u0'')]])])]"
             and page = 0
             and parsed = "[(''page'', JInt 0), (''total_results'', JInt 0),
                            (''results'', JList []), (''cursor'', JNull)]"
             and search_results = "[(''opensearch:totalResults'', JStr ''0''),
                (''entry'', JList []),
                (''link'', JList [JDict [(''@ref'', JStr ''self''), (''@href'', JStr ''u0'')]])]"
             and links = "[JDict [(''@ref'', JStr ''self''), (''@href'', JStr ''u0'')]]"
             and current_url = "''u0''"]
        next_page_on_empty_page
          [where response_data = "[(''search-results'', JDict [(''opensearch:totalResults'', JStr ''0''),
                (''entry'', JList []),
                (''link'', JList [JDict [(''@ref'', JStr ''next''), (''@href'', JStr ''u1'')]])])]"
             and page = 0
             and parsed = "[(''page'', JInt 0), (''total_results'', JInt 0),
                            (''results'', JList []), (''cursor'', JNull)]"
             and search_results = "[(''opensearch:totalResults'', JStr ''0''),
                (''entry'', JList []),
                (''link'', JList [JDict [(''@ref'', JStr ''next''), (''@href'', JStr ''u1'')]])]"
             and links = "[JDict [(''@ref'', JStr ''next''), (''@href'', JStr ''u1'')]]"
             and link = "JDict [(''@ref'', JStr ''next''), (''@href'', JStr ''u1'')]"
             and href = "JStr ''u1''"
             and current_url = "''u0''"]
  by (simp add: crossref_parse_page_response_def scopus_parse_page_response_def dict_get_def
        py_int_str_def py_strip_def is_space_def is_digit_def digit_val_def int_max_str_digits_def)

text \<open>
  Claim C2 as stated fails for Scopus: a body with an empty \<^verbatim>\<open>entry\<close> list and a
  \<^verbatim>\<open>next\<close> link parses to a page with an empty record list, and the next-page
  resolution returns the link.
\<close>

theorem scopus_next_page_on_empty_page:
  "scopus_parse_page_response
     [(''search-results'', JDict [(''opensearch:totalResults'', JStr ''0''),
        (''entry'', JList []),
        (''link'', JList [JDict [(''@ref'', JStr ''next''), (''@href'', JStr ''u1'')]])])] 0
     = Inr [(''page'', JInt 0), (''total_results'', JInt 0), (''results'', JList []),
            (''cursor'', JNull)]
   \<and> scopus_get_next_page_url
       [(''search-results'', JDict [(''opensearch:totalResults'', JStr ''0''),
          (''entry'', JList []),
          (''link'', JList [JDict [(''@ref'', JStr ''next''), (''@href'', JStr ''u1'')]])])]
       ''u0'' = Inr (JStr ''u1'')"
  by (simp add: scopus_parse_page_response_def scopus_get_next_page_url_def dict_get_def
        py_int_str_def py_strip_def is_space_def is_digit_def digit_val_def int_max_str_digits_def)

section \<open>Properties of authentication setup and configuration loading\<close>

text \<open>
  Claim C4. \<^verbatim>\<open>ScopusSearchClient._setup_session\<close> raises exactly when the configured
  API key is empty, and then a \<^verbatim>\<open>ValueError\<close>. \<^verbatim>\<open>CrossrefSearchClient._setup_session\<close>
  never raises, and with no mailto configured it logs one warning. When
  \<^verbatim>\<open>CrossrefSearchFetcher\<close> is built with an empty mailto, or with none and none loaded
  from the configuration files, it logs a warning and its configuration has an empty
  mailto and the rate given by the caller, or else the default 1.0; with a mailto the
  default is 10.0.
\<close>

theorem setup_session_credentials:
  "((\<exists>e. scopus_setup_session api_key session_headers = Inl e) \<longleftrightarrow> api_key = [])
   \<and> scopus_setup_session [] session_headers = Inl ValueError
   \<and> (\<exists>hs logged. crossref_setup_session config session_headers = Inr (hs, logged))
   \<and> (mailto config = [] \<longrightarrow>
        (\<exists>hs. crossref_setup_session config session_headers = Inr (hs, [WARNING])))
   \<and> ((mailto_arg = Some [] \<or> (mailto_arg = None \<and> load_email key_paths = Inr None)) \<longrightarrow>
        (\<exists>fetcher_config.
           crossref_fetcher_init mailto_arg key_paths kwargs = Inr (fetcher_config, [WARNING])
           \<and> mailto fetcher_config = []
           \<and> requests_per_second fetcher_config =
               or_default (kw_requests_per_second kwargs) 1))
   \<and> (mailto_arg = Some m \<and> m \<noteq> [] \<longrightarrow>
        (\<exists>fetcher_config.
           crossref_fetcher_init mailto_arg key_paths kwargs = Inr (fetcher_config, [])
           \<and> mailto fetcher_config = m
           \<and> requests_per_second fetcher_config =
               or_default (kw_requests_per_second kwargs) 10))"
  by (auto simp: scopus_setup_session_def crossref_setup_session_def crossref_fetcher_init_def
        post_init_def Let_def or_default_def)

theorem setup_session_credentials_witness:
  "crossref_setup_session
     \<lparr>mailto = [], base_url = ''https://api.crossref.org/works'', requests_per_second = 1,
      burst_size = 20, max_results_per_query = 10000, max_retries = 3, rows_per_page = 100,
      default_params = [(''rows'', PInt 100)]\<rparr> []
     = Inr ([(''User-Agent'', ''api_clients/1.0''), (''Accept'', ''application/json'')], [WARNING])
   \<and> crossref_fetcher_init None [Missing, Missing]
       \<lparr>kw_requests_per_second = None, kw_max_hits = None, kw_max_results_per_query = None,
        kw_max_retries = None, kw_rows_per_page = None\<rparr>
     = Inr (\<lparr>mailto = [], base_url = ''https://api.crossref.org/works'',
             requests_per_second = 1, burst_size = 20, max_results_per_query = 10000,
             max_retries = 3, rows_per_page = 100, default_params = [(''rows'', PInt 100)]\<rparr>,
            [WARNING])
   \<and> requests_per_second (fst (projr (crossref_fetcher_init (Some ''a@b.c'') [Missing, Missing]
       \<lparr>kw_requests_per_second = None, kw_max_hits = None, kw_max_results_per_query = None,
        kw_max_retries = None, kw_rows_per_page = None\<rparr>))) = 10"
  using setup_session_credentials
          [where config = "\<lparr>mailto = [], base_url = ''https://api.crossref.org/works'',
                requests_per_second = 1, burst_size = 20, max_results_per_query = 10000,
                max_retries = 3, rows_per_page = 100, default_params = [(''rows'', PInt 100)]\<rparr>"
             and session_headers = "[]" and mailto_arg = None and key_paths = "[Missing, Missing]"
             and kwargs = "\<lparr>kw_requests_per_second = None, kw_max_hits = None,
                kw_max_results_per_query = None, kw_max_retries = None, kw_rows_per_page = None\<rparr>"]
        setup_session_credentials
          [where mailto_arg = "Some ''a@b.c''" and m = "''a@b.c''" and key_paths = "[Missing, Missing]"
             and kwargs = "\<lparr>kw_requests_per_second = None, kw_max_hits = None,
                kw_max_results_per_query = None, kw_max_retries = None, kw_rows_per_page = None\<rparr>"]
  by (auto simp: crossref_setup_session_def crossref_fetcher_init_def post_init_def Let_def
        or_default_def)

subsection \<open>Loading the e-mail address\<close>




section \<open>Properties of the filter parameter\<close>

lemma render_filter_bool:
  "render_filter (k, PBool True) = k @ '':true''" "render_filter (k, PBool False) = k @ '':false''"
  by (simp_all add: render_filter_def lower_char_def)

lemma render_filter_other:
  "\<forall>b. v \<noteq> PBool b \<Longrightarrow> render_filter (k, v) = k @ '':'' @ param_str v"
  by (cases v) (auto simp: render_filter_def)

lemma count_update:
  "distinct (map fst al) \<Longrightarrow> length (filter (\<lambda>kv. fst kv = k) (AList.update k v al)) = 1"
  by (induction al) (auto simp: filter_empty_conv rev_image_eqI)

text \<open>
  Claim C9. For a non-empty \<^verbatim>\<open>filters\<close> mapping, \<^verbatim>\<open>search_with_filters\<close> calls
  \<^verbatim>\<open>fetch\<close> with the given query and \<^verbatim>\<open>force_refresh\<close> and with parameters in which
  \<^verbatim>\<open>filter\<close> is the comma-joined list of the rendered filters, every other key is as
  the caller passed it, and \<^verbatim>\<open>filter\<close> occurs once. A filter renders as \<^verbatim>\<open>key:value\<close>,
  with \<^verbatim>\<open>true\<close> and \<^verbatim>\<open>false\<close> for the booleans and \<^verbatim>\<open>str(value)\<close> otherwise.
\<close>

theorem search_with_filters_filter_param:
  "fs \<noteq> [] \<longrightarrow>
     (\<exists>params. search_with_filters query (Some fs) force_refresh kwargs = (query, force_refresh, params)
        \<and> map_of params ''filter'' = Some (PStr (join '','' (map render_filter fs)))
        \<and> (\<forall>k. k \<noteq> ''filter'' \<longrightarrow> map_of params k = map_of kwargs k)
        \<and> (distinct (map fst kwargs) \<longrightarrow>
             length (filter (\<lambda>kv. fst kv = ''filter'') params) = 1))
     \<and> (\<forall>k. render_filter (k, PBool True) = k @ '':true''
            \<and> render_filter (k, PBool False) = k @ '':false'')
     \<and> (\<forall>k v. (\<forall>b. v \<noteq> PBool b) \<longrightarrow> render_filter (k, v) = k @ '':'' @ param_str v)"
  by (auto simp: search_with_filters_def update_conv' count_update render_filter_bool
        render_filter_other)

theorem search_with_filters_filter_param_witness:
  "search_with_filters ''deep learning''
     (Some [(''has-abstract'', PBool True), (''type'', PStr ''journal-article'')]) False
     [(''rows'', PInt 5), (''filter'', PStr ''type:book'')]
   = (''deep learning'', False,
      [(''rows'', PInt 5), (''filter'', PStr ''has-abstract:true,type:journal-article'')])"
  using search_with_filters_filter_param
          [where fs = "[(''has-abstract'', PBool True), (''type'', PStr ''journal-article'')]"
             and query = "''deep learning''" and force_refresh = False
             and kwargs = "[(''rows'', PInt 5), (''filter'', PStr ''type:book'')]"]
  by (simp add: search_with_filters_def)

section \<open>Properties of cache maintenance\<close>

lemma problematic_nonempty:
  "(problematic max_hits frame = []) = (\<not> (\<exists>r \<in> set frame. data r = JNull \<and> max_hits < num_hits r))"
  by (auto simp: problematic_def isna_def filter_empty_conv)

lemma clean_loop_filter:
  "distinct (map fst c) \<Longrightarrow>
   fst (clean_loop max_hits queries c removed) =
     filter (\<lambda>qe. \<not> (fst qe \<in> set queries \<and> capped max_hits (snd qe))) c"
proof (induction queries arbitrary: c removed)
  case Nil
  then show ?case by simp
next
  case (Cons query queries)
  have key: "\<And>e. (query, e) \<in> set c \<Longrightarrow> map_of c query = Some e"
    using Cons.prems by simp
  show ?case
  proof (cases "\<exists>e. map_of c query = Some e \<and> capped max_hits e")
    case True
    then obtain e where e: "map_of c query = Some e" "capped max_hits e" by blast
    then have step: "clean_loop max_hits (query # queries) c removed =
        clean_loop max_hits queries (cache_delete c query) (removed + 1)"
      by (simp add: cache_get_def problematic_nonempty)
    have d: "distinct (map fst (cache_delete c query))"
      using Cons.prems by (simp add: cache_delete_def distinct_delete)
    have "filter (\<lambda>qe. \<not> (fst qe \<in> set queries \<and> capped max_hits (snd qe))) (cache_delete c query)
        = filter (\<lambda>qe. \<not> (fst qe \<in> set (query # queries) \<and> capped max_hits (snd qe))) c"
      unfolding cache_delete_def AList.delete_eq
      using e key by (auto intro!: filter_cong)
    with step Cons.IH[OF d] show ?thesis by simp
  next
    case False
    then have step: "clean_loop max_hits (query # queries) c removed =
        clean_loop max_hits queries c removed"
      by (auto simp: cache_get_def problematic_nonempty split: option.splits)
    have "filter (\<lambda>qe. \<not> (fst qe \<in> set queries \<and> capped max_hits (snd qe))) c
        = filter (\<lambda>qe. \<not> (fst qe \<in> set (query # queries) \<and> capped max_hits (snd qe))) c"
      using False key by (auto intro!: filter_cong)
    with step Cons.IH[OF Cons.prems] show ?thesis by simp
  qed
qed

text \<open>
  Claim C7. On a cache keyed by query, \<^verbatim>\<open>clean_max_hits\<close> leaves exactly the entries
  that are not capped, each unchanged and in its place: it deletes the entries that the
  cache returns and that contain a row whose \<^verbatim>\<open>data\<close> is null and whose \<^verbatim>\<open>num_hits\<close>
  is strictly greater than \<^verbatim>\<open>max_results_per_query\<close>, and no other. When the cache
  returns every entry, these are the entries that contain such a row.
\<close>

theorem clean_max_hits_deletes_capped:
  "distinct (map fst c) \<longrightarrow>
     fst (clean_max_hits max_hits c) = filter (\<lambda>qe. \<not> capped max_hits (snd qe)) c
     \<and> ((\<forall>qe \<in> set c. readable (snd qe)) \<longrightarrow>
          fst (clean_max_hits max_hits c) =
            filter (\<lambda>qe. \<not> (\<exists>r \<in> set (rows (snd qe)). data r = JNull \<and> max_hits < num_hits r)) c)"
proof (intro impI conjI)
  assume d: "distinct (map fst c)"
  have "filter (\<lambda>qe. \<not> (fst qe \<in> set (cache_list_queries c) \<and> capped max_hits (snd qe))) c
      = filter (\<lambda>qe. \<not> capped max_hits (snd qe)) c"
    by (auto simp: cache_list_queries_def intro!: filter_cong)
  moreover have "fst (clean_max_hits max_hits c) = fst (clean_loop max_hits (cache_list_queries c) c 0)"
    by (simp add: clean_max_hits_def case_prod_beta)
  ultimately show main: "fst (clean_max_hits max_hits c) = filter (\<lambda>qe. \<not> capped max_hits (snd qe)) c"
    using clean_loop_filter[OF d, of max_hits "cache_list_queries c" 0] by simp
  assume "\<forall>qe \<in> set c. readable (snd qe)"
  then have "filter (\<lambda>qe. \<not> capped max_hits (snd qe)) c
      = filter (\<lambda>qe. \<not> (\<exists>r \<in> set (rows (snd qe)). data r = JNull \<and> max_hits < num_hits r)) c"
    by (auto intro!: filter_cong)
  with main show "fst (clean_max_hits max_hits c) =
            filter (\<lambda>qe. \<not> (\<exists>r \<in> set (rows (snd qe)). data r = JNull \<and> max_hits < num_hits r)) c"
    by simp
qed

theorem clean_max_hits_deletes_capped_witness:
  "fst (clean_max_hits 5000
     [(''q1'', \<lparr>rows = [\<lparr>num_hits = 6000, data = JNull\<rparr>], readable = True\<rparr>),
      (''q2'', \<lparr>rows = [\<lparr>num_hits = 6000, data = JList []\<rparr>, \<lparr>num_hits = 0, data = JNull\<rparr>],
               readable = True\<rparr>),
      (''q3'', \<lparr>rows = [\<lparr>num_hits = 5000, data = JNull\<rparr>], readable = True\<rparr>)])
   = [(''q2'', \<lparr>rows = [\<lparr>num_hits = 6000, data = JList []\<rparr>, \<lparr>num_hits = 0, data = JNull\<rparr>],
               readable = True\<rparr>),
      (''q3'', \<lparr>rows = [\<lparr>num_hits = 5000, data = JNull\<rparr>], readable = True\<rparr>)]"
  using clean_max_hits_deletes_capped
          [where max_hits = 5000
             and c = "[(''q1'', \<lparr>rows = [\<lparr>num_hits = 6000, data = JNull\<rparr>], readable = True\<rparr>),
      (''q2'', \<lparr>rows = [\<lparr>num_hits = 6000, data = JList []\<rparr>, \<lparr>num_hits = 0, data = JNull\<rparr>],
               readable = True\<rparr>),
      (''q3'', \<lparr>rows = [\<lparr>num_hits = 5000, data = JNull\<rparr>], readable = True\<rparr>)]"]
  by simp

section \<open>Properties of the rate-limit header readers\<close>

text \<open>
  What can leave the two readers: the \<^verbatim>\<open>try\<close> bodies raise nothing but
  \<^verbatim>\<open>ValueError\<close>, \<^verbatim>\<open>TypeError\<close>, \<^verbatim>\<open>OverflowError\<close> and \<^verbatim>\<open>OSError\<close>, and the handler
  takes the first of these only.
\<close>

lemma py_int_str_raises: "py_int_str s = Inl e \<Longrightarrow> e = ValueError"
  by (simp add: py_int_str_def Let_def split: if_splits)

lemma set_rate_limit_raises: "set_rate_limit self hs name = Inl e \<Longrightarrow> e = ValueError"
  by (auto simp: set_rate_limit_def split: option.splits sum.splits dest: py_int_str_raises)

lemma fromtimestamp_raises:
  "fromtimestamp t = Inl e \<Longrightarrow> e = OverflowError \<or> e = OSError \<or> e = ValueError"
  by (simp add: fromtimestamp_def split: if_splits)

lemma scopus_try_raises:
  "scopus_try self hs = (self', logged, Some e) \<Longrightarrow>
   e = ValueError \<or> e = OverflowError \<or> e = OSError"
  unfolding scopus_try_def
  by (auto split: sum.splits option.splits prod.splits
           dest!: py_int_str_raises set_rate_limit_raises fromtimestamp_raises)

lemma crossref_try_raises:
  "crossref_try self hs = (self', logged, Some e) \<Longrightarrow>
   e = ValueError \<or> e = TypeError \<or> e = OverflowError"
  unfolding crossref_try_def
  by (auto split: sum.splits option.splits if_splits
           dest!: py_int_str_raises set_rate_limit_raises)

lemma except_value_key_raises:
  "except_value_key r = (self', logged, Some e) \<Longrightarrow>
   e \<noteq> ValueError \<and> e \<noteq> KeyError \<and> (\<exists>s l. r = (s, l, Some e))"
  by (auto simp: except_value_key_def split: prod.splits option.splits if_splits)

lemma scopus_update_escapes:
  "scopus_update_from_headers self hs = (self', logged, Some e) \<Longrightarrow>
   e = OverflowError \<or> e = OSError"
  unfolding scopus_update_from_headers_def
  by (auto dest!: except_value_key_raises scopus_try_raises)

lemma crossref_update_escapes:
  "crossref_update_from_headers self hs = (self', logged, Some e) \<Longrightarrow>
   e = TypeError \<or> e = OverflowError"
  unfolding crossref_update_from_headers_def
  by (auto dest!: except_value_key_raises crossref_try_raises)

text \<open>
  Claim C6 at three inputs. The handlers catch \<^verbatim>\<open>ValueError\<close> and \<^verbatim>\<open>KeyError\<close> only.
  A Scopus \<^verbatim>\<open>X-RateLimit-Reset\<close> of \<open>2 ^ 63\<close> makes \<^verbatim>\<open>fromtimestamp\<close> raise
  \<^verbatim>\<open>OverflowError\<close>, which leaves the method. A Crossref \<^verbatim>\<open>X-Rate-Limit-Interval\<close>
  without \<^verbatim>\<open>X-Rate-Limit-Limit\<close>, on a limiter whose \<^verbatim>\<open>api_rate_limit\<close> is still
  \<^verbatim>\<open>None\<close>, makes the division raise \<^verbatim>\<open>TypeError\<close>; and a Crossref limit of \<open>10 ^ 309\<close>
  (a one and 309 zeros) makes it raise \<^verbatim>\<open>OverflowError\<close>.
\<close>

theorem update_from_headers_escaping_exceptions:
  "scopus_update_from_headers
     \<lparr>api_rate_limit = None, api_remaining = None, api_reset_time = None\<rparr>
     [(''X-RateLimit-Reset'', ''9223372036854775808'')]
     = (\<lparr>api_rate_limit = None, api_remaining = None, api_reset_time = None\<rparr>, [],
        Some OverflowError)
   \<and> crossref_update_from_headers
     \<lparr>api_rate_limit = None, api_remaining = None, api_reset_time = None\<rparr>
     [(''X-Rate-Limit-Interval'', ''1s'')]
     = (\<lparr>api_rate_limit = None, api_remaining = None, api_reset_time = None\<rparr>, [],
        Some TypeError)
   \<and> crossref_update_from_headers
     \<lparr>api_rate_limit = Some 50, api_remaining = None, api_reset_time = None\<rparr>
     [(''X-Rate-Limit-Limit'', ''1'' @ replicate 309 CHR ''0''), (''X-Rate-Limit-Interval'', ''1s'')]
     = (\<lparr>api_rate_limit = Some (10 ^ 309), api_remaining = None, api_reset_time = None\<rparr>, [],
        Some OverflowError)"
  by code_simp

section \<open>Properties of the URLs\<close>

subsection \<open>Splitting, joining and quoting\<close>

lemma split_on_nonempty: "split_on c s \<noteq> []"
  by (induction s) (auto split: list.splits)

lemma split_on_no_sep: "c \<notin> set s \<Longrightarrow> split_on c s = [s]"
  by (induction s) auto

lemma split_on_append:
  "c \<notin> set a \<Longrightarrow> split_on c (a @ c # b) = a # split_on c b"
  by (induction a) auto

lemma split_on_join:
  "ps \<noteq> [] \<Longrightarrow> \<forall>p \<in> set ps. c \<notin> set p \<Longrightarrow> split_on c (join [c] ps) = ps"
proof (induction "[c]" ps rule: join.induct)
  case (2 p)
  then show ?case by (simp add: split_on_no_sep)
next
  case (3 p q ps)
  then show ?case by (simp add: split_on_append)
qed simp_all

lemma query_string_append:
  "CHR ''?'' \<notin> set base \<Longrightarrow> query_string (base @ CHR ''?'' # q) = q"
proof -
  assume n: "CHR ''?'' \<notin> set base"
  then have "takeWhile (\<lambda>x. x \<noteq> CHR ''?'') (base @ CHR ''?'' # q) = base"
    and "dropWhile (\<lambda>x. x \<noteq> CHR ''?'') (base @ CHR ''?'' # q) = CHR ''?'' # q"
    by (induction base) auto
  then show ?thesis by (simp add: query_string_def split_once_def)
qed

lemma hex_digit_ok:
  "m < 16 \<Longrightarrow> is_hex (hex_digit m) \<and> hex_val (hex_digit m) = m"
proof -
  assume "m < 16"
  then have "m = 0 \<or> m = 1 \<or> m = 2 \<or> m = 3 \<or> m = 4 \<or> m = 5 \<or> m = 6 \<or> m = 7
      \<or> m = 8 \<or> m = 9 \<or> m = 10 \<or> m = 11 \<or> m = 12 \<or> m = 13 \<or> m = 14 \<or> m = 15"
    by arith
  then show ?thesis
    by (elim disjE) (simp_all add: hex_digit_def is_hex_def hex_val_def)
qed

lemma unquote_plus_plain:
  "c \<noteq> CHR ''%'' \<Longrightarrow>
   unquote_plus (c # t) = (if c = CHR ''+'' then CHR '' '' else c) # unquote_plus t"
  by (cases t rule: unquote_plus.cases) auto

lemma unquote_plus_quote_char:
  "unquote_plus (quote_char c @ t) = c # unquote_plus t"
proof -
  have b: "of_char c div 16 < (16::nat)" "of_char c mod 16 < (16::nat)"
    by (simp_all add: less_mult_imp_div_less)
  have r: "char_of (16 * (of_char c div 16) + of_char c mod (16::nat)) = c"
    by simp
  show ?thesis
    using hex_digit_ok[OF b(1)] hex_digit_ok[OF b(2)] r
    by (auto simp: quote_char_def unquote_plus_plain always_safe_def)
qed

lemma unquote_plus_quote_plus: "unquote_plus (quote_plus s) = s"
  by (induction s) (simp_all add: quote_plus_def unquote_plus_quote_char)

lemma hex_digit_mem: "hex_digit m \<in> set ''0123456789ABCDEF''"
  unfolding hex_digit_def by (rule nth_mem) simp

lemma hex_digit_not_sep: "hex_digit m \<noteq> CHR ''&''" "hex_digit m \<noteq> CHR ''=''"
  using hex_digit_mem[of m] by auto

lemma quote_char_chars:
  assumes "x \<in> set (quote_char c)"
  shows "x \<noteq> CHR ''&'' \<and> x \<noteq> CHR ''=''"
proof (cases "c = CHR '' ''")
  case True
  with assms show ?thesis by (simp add: quote_char_def)
next
  case False
  show ?thesis
  proof (cases "always_safe c")
    case True
    with False assms have "x = c" by (simp add: quote_char_def)
    moreover have "\<not> always_safe CHR ''&''" "\<not> always_safe CHR ''=''"
      by (simp_all add: always_safe_def)
    ultimately show ?thesis using True by auto
  next
    case unsafe: False
    with False assms
    have "x = CHR ''%'' \<or> x = hex_digit (of_char c div 16) \<or> x = hex_digit (of_char c mod 16)"
      by (simp add: quote_char_def)
    then show ?thesis using hex_digit_not_sep by auto
  qed
qed

lemma quote_plus_chars:
  "CHR ''&'' \<notin> set (quote_plus s)" "CHR ''='' \<notin> set (quote_plus s)"
  using quote_char_chars by (auto simp: quote_plus_def)

lemma fold_update_distinct:
  "distinct (map fst d) \<Longrightarrow>
   distinct (map fst (fold (\<lambda>kv d. AList.update (fst kv) (snd kv) d) xs d))"
  by (induction xs arbitrary: d) (simp_all add: distinct_update)

lemma fold_update_map_of_None:
  "map_of (fold (\<lambda>kv d. AList.update (fst kv) (snd kv) d) xs d) k = None
     \<longleftrightarrow> map_of xs k = None \<and> map_of d k = None"
  by (induction xs arbitrary: d) (auto simp: update_conv')

lemma fold_update_map_of_other:
  "map_of xs k = None \<Longrightarrow>
   map_of (fold (\<lambda>kv d. AList.update (fst kv) (snd kv) d) xs d) k = map_of d k"
  by (induction xs arbitrary: d) (auto simp: update_conv' split: if_splits)

lemma fold_update_map_of_last:
  "distinct (map fst xs) \<Longrightarrow> map_of xs k = Some v \<Longrightarrow>
   map_of (fold (\<lambda>kv d. AList.update (fst kv) (snd kv) d) xs d) k = Some v"
proof (induction xs arbitrary: d)
  case (Cons x xs)
  show ?case
  proof (cases "fst x = k")
    case True
    with Cons.prems have "map_of xs k = None" and "snd x = v"
      by (auto simp: map_of_eq_None_iff)
    with True show ?thesis by (simp add: fold_update_map_of_other update_conv')
  next
    case False
    with Cons show ?thesis by auto
  qed
qed simp

lemma fold_update_append:
  "fold (\<lambda>kv d. AList.update (fst kv) (snd kv) d) (a @ b) d
     = fold (\<lambda>kv d. AList.update (fst kv) (snd kv) d) b
         (fold (\<lambda>kv d. AList.update (fst kv) (snd kv) d) a d)"
  by simp

lemma dict_merge_distinct: "distinct (map fst (dict_merge a b))"
  by (simp add: dict_merge_def fold_update_distinct del: fold_append)

lemma dict_merge_None:
  "map_of (dict_merge a b) k = None \<longleftrightarrow> map_of a k = None \<and> map_of b k = None"
  unfolding dict_merge_def fold_update_map_of_None by (auto simp: map_add_def split: option.splits)

lemma dict_merge_override:
  "distinct (map fst b) \<Longrightarrow> map_of b k = Some v \<Longrightarrow> map_of (dict_merge a b) k = Some v"
  unfolding dict_merge_def fold_update_append by (rule fold_update_map_of_last)

lemma filter_key_distinct:
  "distinct (map fst al) \<Longrightarrow> map_of al k = Some v \<Longrightarrow> filter (\<lambda>kv. fst kv = k) al = [(k, v)]"
proof (induction al)
  case (Cons a al)
  show ?case
  proof (cases "fst a = k")
    case True
    with Cons.prems have "\<forall>x \<in> set al. fst x \<noteq> k"
      by (metis distinct.simps(2) image_eqI list.simps(9) list.set_map)
    then have "filter (\<lambda>kv. fst kv = k) al = []"
      by (simp add: filter_empty_conv)
    with True Cons.prems show ?thesis by (cases a) auto
  next
    case False
    with Cons show ?thesis by auto
  qed
qed simp

lemma quote_plus_cursor: "quote_plus ''cursor'' = ''cursor''"
  by (simp add: quote_plus_def quote_char_def always_safe_def)

lemma takeWhile_no_sep:
  "c \<notin> set a \<Longrightarrow> takeWhile (\<lambda>x. x \<noteq> c) (a @ c # r) = a"
  by (induction a) auto

lemma startswithD: "startswith s p \<Longrightarrow> \<exists>r. s = p @ r"
  unfolding startswith_def by (metis append_take_drop_id)

lemma startswith_cursor_key:
  "startswith (quote_plus k @ CHR ''='' # r) ''cursor='' \<longleftrightarrow> k = ''cursor''"
proof
  assume "k = ''cursor''"
  then show "startswith (quote_plus k @ CHR ''='' # r) ''cursor=''"
    by (simp add: quote_plus_cursor startswith_def)
next
  let ?s = "quote_plus k @ CHR ''='' # r"
  assume "startswith ?s ''cursor=''"
  then obtain r' where "?s = ''cursor='' @ r'" using startswithD by blast
  moreover have "takeWhile (\<lambda>x. x \<noteq> CHR ''='') (''cursor='' @ r') = ''cursor''"
    by simp
  ultimately have "takeWhile (\<lambda>x. x \<noteq> CHR ''='') ?s = ''cursor''"
    by (simp only:)
  moreover have "takeWhile (\<lambda>x. x \<noteq> CHR ''='') ?s = quote_plus k"
    using quote_plus_chars(2)[of k] by (rule takeWhile_no_sep)
  ultimately have "quote_plus k = ''cursor''" by simp
  then have "unquote_plus (quote_plus k) = unquote_plus ''cursor''" by simp
  then show "k = ''cursor''" by (simp add: unquote_plus_quote_plus)
qed

lemma urlencode_parts:
  assumes "up \<noteq> []"
  shows "split_on CHR ''&'' (urlencode up)
           = map (\<lambda>kv. quote_plus (fst kv) @ ''='' @ quote_plus (param_str (snd kv))) up"
  unfolding urlencode_def
  using assms quote_plus_chars by (intro split_on_join) auto

lemma cursor_params_urlencode:
  assumes "CHR ''?'' \<notin> set base" and "distinct (map fst up)"
    and "map_of up ''cursor'' = Some cv"
  shows "cursor_params (base @ ''?'' @ urlencode up) = [quote_plus (param_str cv)]"
proof -
  define enc where "enc = (\<lambda>kv. quote_plus (fst kv) @ ''='' @ quote_plus (param_str (snd kv)))"
  from assms(3) have ne: "up \<noteq> []" by auto
  have key: "\<And>kv. startswith (enc kv) ''cursor='' = (fst kv = ''cursor'')"
    unfolding enc_def using startswith_cursor_key by simp
  have "cursor_params (base @ ''?'' @ urlencode up)
      = map (drop 7) (filter (\<lambda>p. startswith p ''cursor='') (map enc up))"
    using assms(1) unfolding enc_def
    by (simp add: cursor_params_def query_string_append urlencode_parts[OF ne])
  also have "\<dots> = map (drop 7) (map enc (filter (\<lambda>kv. fst kv = ''cursor'') up))"
    by (simp only: filter_map o_def key)
  also have "\<dots> = [quote_plus (param_str cv)]"
    by (simp add: filter_key_distinct[OF assms(2,3)] enc_def quote_plus_cursor)
  finally show ?thesis .
qed

lemma build_search_url_shape:
  "\<exists>up. crossref_build_search_url config query params = base_url config @ ''?'' @ urlencode up
       \<and> distinct (map fst up)
       \<and> map_of up ''cursor'' =
           Some (case map_of (dict_merge (default_params config)
                                (case params of None \<Rightarrow> [] | Some ps \<Rightarrow> ps)) ''cursor'' of
                   None \<Rightarrow> PStr ''*'' | Some v \<Rightarrow> v)"
proof -
  define u1 where "u1 = AList.update ''query'' (PStr query)
     (dict_merge (default_params config) (case params of None \<Rightarrow> [] | Some ps \<Rightarrow> ps))"
  define u2 where "u2 = (if mailto config \<noteq> [] \<and> map_of u1 ''mailto'' = None
     then AList.update ''mailto'' (PStr (mailto config)) u1 else u1)"
  define u3 where "u3 = (if map_of u2 ''cursor'' = None
     then AList.update ''cursor'' (PStr ''*'') u2 else u2)"
  have "crossref_build_search_url config query params = base_url config @ ''?'' @ urlencode u3"
    unfolding crossref_build_search_url_def Let_def u1_def u2_def u3_def by (rule refl)
  moreover have "distinct (map fst u3)"
    by (simp add: u1_def u2_def u3_def distinct_update dict_merge_distinct)
  moreover have "map_of u3 ''cursor'' =
           Some (case map_of (dict_merge (default_params config)
                                (case params of None \<Rightarrow> [] | Some ps \<Rightarrow> ps)) ''cursor'' of
                   None \<Rightarrow> PStr ''*'' | Some v \<Rightarrow> v)"
    by (simp add: u1_def u2_def u3_def update_conv' split: option.splits)
  ultimately show ?thesis by blast
qed

lemma split_on_parts: "p \<in> set (split_on c s) \<Longrightarrow> c \<notin> set p"
proof (induction s arbitrary: p)
  case Nil
  then show ?case by simp
next
  case (Cons x xs)
  then show ?case
    by (cases "split_on c xs") (auto split: if_splits simp: split_on_nonempty)
qed

lemma split_on_append_any: "split_on c (a @ c # b) = split_on c a @ split_on c b"
proof (induction a)
  case Nil
  then show ?case by simp
next
  case (Cons x a)
  then show ?case
    by (cases "split_on c a") (auto simp: split_on_nonempty)
qed

lemma join_Cons_Cons: "join sep ((x # q) # qs) = x # join sep (q # qs)"
  by (cases qs) simp_all

lemma join_split_on: "join [c] (split_on c s) = s"
proof (induction s)
  case Nil
  then show ?case by simp
next
  case (Cons x xs)
  obtain q qs where s: "split_on c xs = q # qs"
    using split_on_nonempty by (cases "split_on c xs") auto
  with Cons show ?case by (simp add: join_Cons_Cons)
qed

lemma join_contains: "p \<in> set ps \<Longrightarrow> \<exists>a b. join sep ps = a @ p @ b"
proof (induction sep ps rule: join.induct)
  case (3 sep p' q ps)
  show ?case
  proof (cases "p = p'")
    case True
    then have "join sep (p' # q # ps) = [] @ p @ (sep @ join sep (q # ps))" by simp
    then show ?thesis by blast
  next
    case False
    with 3 obtain a b where "join sep (q # ps) = a @ p @ b" by auto
    then have "join sep (p' # q # ps) = (p' @ sep @ a) @ p @ b" by simp
    then show ?thesis by blast
  qed
next
  case (2 sep p')
  then have "join sep [p'] = [] @ p @ []" by simp
  then show ?case by blast
qed simp

lemma py_in_append: "py_in sub (a @ sub @ b)"
proof (induction a)
  case Nil
  have "startswith (sub @ b) sub" by (simp add: startswith_def)
  then show ?case by (cases "sub @ b") auto
next
  case (Cons x a)
  then show ?case by simp
qed

lemma part_startswith_py_in:
  assumes "p \<in> set (split_on c s)" and "startswith p sub"
  shows "py_in sub (pre @ s)"
proof -
  from assms(1) obtain a b where "join [c] (split_on c s) = a @ p @ b"
    using join_contains by blast
  then have "s = a @ p @ b" by (simp add: join_split_on)
  moreover from assms(2) obtain r where "p = sub @ r" using startswithD by blast
  ultimately have "pre @ s = (pre @ a) @ sub @ (r @ b)" by simp
  then show ?thesis using py_in_append by metis
qed

lemma split_once_decomp:
  "c \<in> set s \<Longrightarrow> \<exists>base q. split_once c s = [base, q] \<and> s = base @ c # q \<and> c \<notin> set base"
proof -
  assume m: "c \<in> set s"
  let ?b = "takeWhile (\<lambda>x. x \<noteq> c) s"
  let ?d = "dropWhile (\<lambda>x. x \<noteq> c) s"
  from m have "?d \<noteq> []" by auto
  moreover from this have "hd ?d = c" using hd_dropWhile[of "\<lambda>x. x \<noteq> c" s] by simp
  ultimately have "?d = c # tl ?d" by (cases ?d) auto
  then have "s = ?b @ c # tl ?d" by (metis takeWhile_dropWhile_id)
  moreover have "c \<notin> set ?b" by (auto dest: set_takeWhileD)
  ultimately show ?thesis using m by (auto simp: split_once_def)
qed

lemma fetcher_config_shape:
  "crossref_fetcher_init mailto_arg key_paths kwargs = Inr (config, logged) \<Longrightarrow>
   CHR ''?'' \<notin> set (base_url config) \<and> map_of (default_params config) ''cursor'' = None"
  by (auto simp: crossref_fetcher_init_def post_init_def Let_def split: sum.splits if_splits)

subsection \<open>The sentinel cursor of the first request\<close>

text \<open>
  Claim C5. For a configuration whose base URL has no \<open>?\<close> (such is every
  configuration that \<^verbatim>\<open>CrossrefSearchFetcher\<close> builds, whose default parameters are
  \<^verbatim>\<open>rows\<close> alone): when neither the
  configured default parameters nor the caller's parameters have a \<^verbatim>\<open>cursor\<close> key, the
  URL that \<^verbatim>\<open>_build_search_url\<close> returns has exactly one \<^verbatim>\<open>cursor\<close> parameter, written
  \<^verbatim>\<open>cursor=%2A\<close>, whose value reads as the sentinel \<open>*\<close>; when the caller's parameters
  give \<^verbatim>\<open>cursor\<close> a value, the URL has exactly one \<^verbatim>\<open>cursor\<close> parameter, whose value
  reads as \<^verbatim>\<open>str\<close> of the caller's value, and no sentinel.
\<close>

theorem build_search_url_cursor:
  "(CHR ''?'' \<notin> set (base_url config) \<longrightarrow>
     (map_of (default_params config) ''cursor'' = None \<and> map_of ps ''cursor'' = None \<longrightarrow>
        cursor_params (crossref_build_search_url config query (Some ps)) = [''%2A'']
        \<and> cursor_values (crossref_build_search_url config query (Some ps)) = [''*''])
     \<and> (map_of (default_params config) ''cursor'' = None \<longrightarrow>
        cursor_params (crossref_build_search_url config query None) = [''%2A'']
        \<and> cursor_values (crossref_build_search_url config query None) = [''*''])
     \<and> (distinct (map fst ps) \<and> map_of ps ''cursor'' = Some v \<longrightarrow>
        cursor_params (crossref_build_search_url config query (Some ps)) = [quote_plus (param_str v)]
        \<and> cursor_values (crossref_build_search_url config query (Some ps)) = [param_str v]))
   \<and> (crossref_fetcher_init mailto_arg key_paths kwargs = Inr (config, logged) \<longrightarrow>
        CHR ''?'' \<notin> set (base_url config) \<and> map_of (default_params config) ''cursor'' = None)"
proof (rule conjI)
  show "crossref_fetcher_init mailto_arg key_paths kwargs = Inr (config, logged) \<longrightarrow>
        CHR ''?'' \<notin> set (base_url config) \<and> map_of (default_params config) ''cursor'' = None"
    using fetcher_config_shape by blast
  show "CHR ''?'' \<notin> set (base_url config) \<longrightarrow>
     (map_of (default_params config) ''cursor'' = None \<and> map_of ps ''cursor'' = None \<longrightarrow>
        cursor_params (crossref_build_search_url config query (Some ps)) = [''%2A'']
        \<and> cursor_values (crossref_build_search_url config query (Some ps)) = [''*''])
     \<and> (map_of (default_params config) ''cursor'' = None \<longrightarrow>
        cursor_params (crossref_build_search_url config query None) = [''%2A'']
        \<and> cursor_values (crossref_build_search_url config query None) = [''*''])
     \<and> (distinct (map fst ps) \<and> map_of ps ''cursor'' = Some v \<longrightarrow>
        cursor_params (crossref_build_search_url config query (Some ps)) = [quote_plus (param_str v)]
        \<and> cursor_values (crossref_build_search_url config query (Some ps)) = [param_str v])"
  proof (intro impI conjI)
    assume b: "CHR ''?'' \<notin> set (base_url config)"
    have star: "quote_plus ''*'' = ''%2A''"
      by (simp add: quote_plus_def quote_char_def always_safe_def hex_digit_def)
    have vals: "\<And>u x. cursor_params u = [quote_plus x] \<Longrightarrow> cursor_values u = [x]"
      by (simp add: cursor_values_def unquote_plus_quote_plus)
    {
      fix params cv
      assume "map_of (dict_merge (default_params config)
                (case params of None \<Rightarrow> [] | Some ps \<Rightarrow> ps)) ''cursor'' = cv"
      with build_search_url_shape[of config query params] b
      have "cursor_params (crossref_build_search_url config query params)
          = [quote_plus (param_str (case cv of None \<Rightarrow> PStr ''*'' | Some v \<Rightarrow> v))]"
        using cursor_params_urlencode by auto
    } note main = this
    {
      assume a: "map_of (default_params config) ''cursor'' = None \<and> map_of ps ''cursor'' = None"
      then have "map_of (dict_merge (default_params config) ps) ''cursor'' = None"
        by (simp add: dict_merge_None)
      from main[of "Some ps" None] this
      show p1: "cursor_params (crossref_build_search_url config query (Some ps)) = [''%2A'']"
        by (simp add: star)
      from vals[of _ "''*''"] p1 star
      show "cursor_values (crossref_build_search_url config query (Some ps)) = [''*'']" by simp
    }
    {
      assume a: "map_of (default_params config) ''cursor'' = None"
      then have "map_of (dict_merge (default_params config) []) ''cursor'' = None"
        by (simp add: dict_merge_None)
      from main[of None None] this
      show p2: "cursor_params (crossref_build_search_url config query None) = [''%2A'']"
        by (simp add: star)
      from vals[of _ "''*''"] p2 star
      show "cursor_values (crossref_build_search_url config query None) = [''*'']" by simp
    }
    {
      assume a: "distinct (map fst ps) \<and> map_of ps ''cursor'' = Some v"
      then have "map_of (dict_merge (default_params config) ps) ''cursor'' = Some v"
        by (simp add: dict_merge_override)
      from main[of "Some ps" "Some v"] this
      show p3: "cursor_params (crossref_build_search_url config query (Some ps))
                 = [quote_plus (param_str v)]"
        by simp
      then show "cursor_values (crossref_build_search_url config query (Some ps)) = [param_str v]"
        by (rule vals)
    }
  qed
qed

theorem build_search_url_cursor_witness:
  "cursor_values (crossref_build_search_url
      \<lparr>mailto = ''a@b.c'', base_url = ''https://api.crossref.org/works'',
       requests_per_second = 10, burst_size = 20, max_results_per_query = 10000,
       max_retries = 3, rows_per_page = 100, default_params = [(''rows'', PInt 100)]\<rparr>
      ''machine learning'' (Some [(''rows'', PInt 200)])) = [''*'']
   \<and> cursor_values (crossref_build_search_url
      \<lparr>mailto = ''a@b.c'', base_url = ''https://api.crossref.org/works'',
       requests_per_second = 10, burst_size = 20, max_results_per_query = 10000,
       max_retries = 3, rows_per_page = 100, default_params = [(''rows'', PInt 100)]\<rparr>
      ''machine learning'' (Some [(''cursor'', PStr ''AoJ+x/8='')])) = [''AoJ+x/8='']"
  using build_search_url_cursor
          [where config = "\<lparr>mailto = ''a@b.c'', base_url = ''https://api.crossref.org/works'',
               requests_per_second = 10, burst_size = 20, max_results_per_query = 10000,
               max_retries = 3, rows_per_page = 100, default_params = [(''rows'', PInt 100)]\<rparr>"
             and query = "''machine learning''" and ps = "[(''rows'', PInt 200)]"]
        build_search_url_cursor
          [where config = "\<lparr>mailto = ''a@b.c'', base_url = ''https://api.crossref.org/works'',
               requests_per_second = 10, burst_size = 20, max_results_per_query = 10000,
               max_retries = 3, rows_per_page = 100, default_params = [(''rows'', PInt 100)]\<rparr>"
             and query = "''machine learning''" and ps = "[(''cursor'', PStr ''AoJ+x/8='')]"
             and v = "PStr ''AoJ+x/8=''"]
  by simp

subsection \<open>The Crossref cursor rewrite\<close>

text \<open>
  What the rewrite does achieve: for a URL with a query string, a non-empty item list
  and a non-empty string token without \<open>&\<close>, the result has exactly one \<^verbatim>\<open>cursor\<close>
  parameter, and its raw value is the token. Every old \<^verbatim>\<open>cursor\<close> parameter is gone.
\<close>

lemma remove_old_cursor_clean:
  assumes "CHR ''?'' \<in> set current_url"
  shows "\<exists>base q. remove_old_cursor current_url = Inr (base @ CHR ''?'' # q)
           \<and> CHR ''?'' \<notin> set base
           \<and> filter (\<lambda>p. startswith p ''cursor='') (split_on CHR ''&'' q) = []"
proof -
  from split_once_decomp[OF assms] obtain base params where
    so: "split_once CHR ''?'' current_url = [base, params]"
    and url: "current_url = base @ CHR ''?'' # params"
    and nb: "CHR ''?'' \<notin> set base" by blast
  show ?thesis
  proof (cases "py_in ''cursor='' current_url")
    case True
    let ?fs = "filter (\<lambda>p. \<not> startswith p ''cursor='') (split_on CHR ''&'' params)"
    from True so have r: "remove_old_cursor current_url = Inr (base @ CHR ''?'' # join ''&'' ?fs)"
      by (simp add: remove_old_cursor_def)
    have "filter (\<lambda>p. startswith p ''cursor='') (split_on CHR ''&'' (join ''&'' ?fs)) = []"
    proof (cases "?fs = []")
      case True
      then show ?thesis by (simp add: startswith_def)
    next
      case False
      have "\<forall>p \<in> set ?fs. CHR ''&'' \<notin> set p" using split_on_parts by auto
      with False have "split_on CHR ''&'' (join ''&'' ?fs) = ?fs" by (rule split_on_join)
      then show ?thesis by (simp add: filter_empty_conv)
    qed
    with r nb show ?thesis by blast
  next
    case False
    then have r: "remove_old_cursor current_url = Inr (base @ CHR ''?'' # params)"
      using url by (simp add: remove_old_cursor_def)
    have "filter (\<lambda>p. startswith p ''cursor='') (split_on CHR ''&'' params) = []"
    proof (rule ccontr)
      assume "filter (\<lambda>p. startswith p ''cursor='') (split_on CHR ''&'' params) \<noteq> []"
      then obtain p where "p \<in> set (split_on CHR ''&'' params)" "startswith p ''cursor=''"
        by (auto simp: filter_empty_conv)
      then have "py_in ''cursor='' ((base @ ''?'') @ params)" by (rule part_startswith_py_in)
      with url False show False by simp
    qed
    with r nb show ?thesis by blast
  qed
qed

lemma crossref_next_page_replaces_cursor:
  assumes "map_of response_data ''message'' = Some (JDict message)"
    and "dict_get message ''items'' (JList []) = JList (item # items)"
    and "dict_get message ''next-cursor'' JNull = JStr token"
    and "token \<noteq> []" and "CHR ''&'' \<notin> set token"
    and "CHR ''?'' \<in> set current_url"
  shows "\<exists>url. crossref_get_next_page_url response_data current_url = Inr (Some url)
           \<and> cursor_params url = [token]"
proof -
  from remove_old_cursor_clean[OF assms(6)] obtain base q where
    r: "remove_old_cursor current_url = Inr (base @ CHR ''?'' # q)"
    and nb: "CHR ''?'' \<notin> set base"
    and clean: "filter (\<lambda>p. startswith p ''cursor='') (split_on CHR ''&'' q) = []" by blast
  let ?url = "(base @ CHR ''?'' # q) @ ''&cursor='' @ token"
  from assms r have res: "crossref_get_next_page_url response_data current_url = Inr (Some ?url)"
    by (simp add: crossref_get_next_page_url_def items_empty_def)
  have "?url = base @ CHR ''?'' # (q @ CHR ''&'' # (''cursor='' @ token))" by simp
  then have "query_string ?url = q @ CHR ''&'' # (''cursor='' @ token)"
    using query_string_append[OF nb] by (simp only:)
  moreover have "split_on CHR ''&'' (q @ CHR ''&'' # (''cursor='' @ token))
      = split_on CHR ''&'' q @ [''cursor='' @ token]"
    using assms(5) by (simp add: split_on_append_any split_on_no_sep)
  ultimately have "cursor_params ?url = [token]"
    using clean by (simp add: cursor_params_def startswith_def)
  with res show ?thesis by blast
qed

text \<open>
  Claim C1 at two inputs. The new token is appended to the URL as it is, without the
  quoting that \<^verbatim>\<open>_build_search_url\<close> applies through \<^verbatim>\<open>urlencode\<close>. With the token
  \<^verbatim>\<open>a&cursor=b\<close> the resulting query string has two \<^verbatim>\<open>cursor\<close> parameters; with the
  token \<^verbatim>\<open>AoJ+x/8=\<close> it has one, whose value reads as \<^verbatim>\<open>AoJ x/8=\<close>, not as the token.
\<close>

theorem crossref_next_page_unquoted_token:
  "crossref_get_next_page_url
     [(''message'', JDict [(''items'', JList [JDict []]), (''next-cursor'', JStr ''a&cursor=b'')])]
     ''https://api.crossref.org/works?rows=100&query=ml&cursor=%2A''
     = Inr (Some ''https://api.crossref.org/works?rows=100&query=ml&cursor=a&cursor=b'')
   \<and> cursor_params ''https://api.crossref.org/works?rows=100&query=ml&cursor=a&cursor=b''
     = [''a'', ''b'']
   \<and> crossref_get_next_page_url
     [(''message'', JDict [(''items'', JList [JDict []]), (''next-cursor'', JStr ''AoJ+x/8='')])]
     ''https://api.crossref.org/works?rows=100&query=ml&cursor=%2A''
     = Inr (Some ''https://api.crossref.org/works?rows=100&query=ml&cursor=AoJ+x/8='')
   \<and> cursor_values ''https://api.crossref.org/works?rows=100&query=ml&cursor=AoJ+x/8=''
     = [''AoJ x/8='']"
  by (simp add: crossref_get_next_page_url_def dict_get_def items_empty_def
        remove_old_cursor_def split_once_def startswith_def cursor_params_def cursor_values_def
        query_string_def is_hex_def)

end
